theory Spec2Isabelle
  imports Main "HOL-Library.Sublist"
begin

section \<open>Strings, base64 and structured documents\<close>

text \<open>
  A Python \<open>str\<close> is represented by its UTF-8 bytes, so \<open>s.encode()\<close> and the
  \<open>.decode()\<close> of a base64 text (which is ASCII) are the identity on the representation.
  \<open>sq\<close> and \<open>dq\<close> are the single and the double quote characters of the messages and
  rule texts the source builds with f-strings.
\<close>

definition sq :: string where
  "sq = [CHR 0x27]"

definition dq :: string where
  "dq = [CHR 0x22]"

text \<open>\<open>needle in haystack\<close> on strings: the needle occurs as a contiguous slice.\<close>

fun is_substring :: "string \<Rightarrow> string \<Rightarrow> bool" where
  "is_substring p [] = (p = [])"
| "is_substring p (c # cs) = (prefix p (c # cs) \<or> is_substring p cs)"

text \<open>
  \<open>base64.b64encode\<close> of the standard library (RFC 4648, standard alphabet, padding
  with \<open>=\<close>): three bytes become four characters.
\<close>

definition b64_alphabet :: string where
  "b64_alphabet = ''ABCDEFGHIJKLMNOPQRSTUVWXYZabcdefghijklmnopqrstuvwxyz0123456789+/''"

definition b64_char :: "nat \<Rightarrow> char" where
  "b64_char n = b64_alphabet ! (n mod 64)"

fun b64encode :: "string \<Rightarrow> string" where
  "b64encode [] = []"
| "b64encode [a] =
     (let n = of_char a * 65536 in
      [b64_char (n div 262144), b64_char (n div 4096), CHR ''='', CHR ''=''])"
| "b64encode [a, b] =
     (let n = of_char a * 65536 + of_char b * 256 in
      [b64_char (n div 262144), b64_char (n div 4096), b64_char (n div 64), CHR ''=''])"
| "b64encode (a # b # c # rest) =
     (let n = of_char a * 65536 + of_char b * 256 + of_char c in
      [b64_char (n div 262144), b64_char (n div 4096), b64_char (n div 64), b64_char n]
        @ b64encode rest)"

text \<open>
  The matching decoder, \<open>base64.b64decode\<close>: it is not called by the program, and is
  here to say what one decoding step of a stored field gives back.
\<close>

fun index_of :: "'a \<Rightarrow> 'a list \<Rightarrow> nat" where
  "index_of x [] = 0"
| "index_of x (y # ys) = (if x = y then 0 else Suc (index_of x ys))"

definition b64_value :: "char \<Rightarrow> nat" where
  "b64_value c = index_of c b64_alphabet"

fun b64decode :: "string \<Rightarrow> string" where
  "b64decode (a # b # c # d # rest) =
     (let n = b64_value a * 262144 + b64_value b * 4096
               + (if c = CHR ''='' then 0 else b64_value c * 64)
               + (if d = CHR ''='' then 0 else b64_value d)
      in (if c = CHR ''='' then [char_of (n div 65536)]
          else if d = CHR ''='' then [char_of (n div 65536), char_of (n div 256)]
          else [char_of (n div 65536), char_of (n div 256), char_of n]) @ b64decode rest)"
| "b64decode _ = []"

text \<open>
  The dictionaries the renderer builds, before they are serialised: keys in the order of
  the dict literal.
\<close>

datatype doc =
    DStr string
  | DBool bool
  | DList "doc list"
  | DDict "(string \<times> doc) list"

fun doc_get :: "string \<Rightarrow> doc \<Rightarrow> doc option" where
  "doc_get k (DDict kvs) = map_of kvs k"
| "doc_get k _ = None"

text \<open>
  \<open>yaml.dump\<close> (PyYAML) and \<open>json.dumps\<close> are library code outside the repository:
  the renderer takes them as parameters.
\<close>

record serializers =
  yaml_dump :: "doc \<Rightarrow> string"
  json_dumps :: "doc \<Rightarrow> string"
  json_dumps_indent4 :: "doc \<Rightarrow> string"

section \<open>TemplateGenerator (core/operation/template\_handler.py)\<close>

text \<open>The dict literal \<open>consul_secret\<close> of \<open>generate_consul_k8s_secret\<close>.\<close>

definition consul_secret_doc :: "string \<Rightarrow> string \<Rightarrow> string \<Rightarrow> doc" where
  "consul_secret_doc group_name namespace secret_id =
     (let secret_id_encoded = b64encode secret_id in
      DDict [(''apiVersion'', DStr ''v1''),
             (''kind'', DStr ''Secret''),
             (''metadata'', DDict [(''name'', DStr (''consul-'' @ group_name)),
                                   (''namespace'', DStr namespace)]),
             (''type'', DStr ''Opaque''),
             (''data'', DDict [(''CONSUL_TOKEN'', DStr secret_id_encoded)])])"

definition generate_consul_k8s_secret ::
  "serializers \<Rightarrow> string \<Rightarrow> string \<Rightarrow> string \<Rightarrow> string" where
  "generate_consul_k8s_secret L group_name namespace secret_id =
     yaml_dump L (consul_secret_doc group_name namespace secret_id)"

text \<open>The dict literal \<open>vault_secret\<close> of \<open>generate_vault_k8s_secret\<close>.\<close>

definition vault_secret_doc :: "string \<Rightarrow> string \<Rightarrow> string \<Rightarrow> string \<Rightarrow> doc" where
  "vault_secret_doc group_name namespace role_id secret_id =
     (let encoded_role_id = b64encode role_id;
          encoded_secret_id = b64encode secret_id in
      DDict [(''apiVersion'', DStr ''v1''),
             (''kind'', DStr ''Secret''),
             (''metadata'', DDict [(''name'', DStr (''vault-'' @ group_name)),
                                   (''namespace'', DStr namespace)]),
             (''type'', DStr ''Opaque''),
             (''data'', DDict [(''VAULT_ROLE_ID'', DStr encoded_role_id),
                               (''VAULT_SECRET_ID'', DStr encoded_secret_id)])])"

definition generate_vault_k8s_secret ::
  "serializers \<Rightarrow> string \<Rightarrow> string \<Rightarrow> string \<Rightarrow> string \<Rightarrow> string" where
  "generate_vault_k8s_secret L group_name namespace role_id secret_id =
     yaml_dump L (vault_secret_doc group_name namespace role_id secret_id)"

definition generate_vault_policy_json :: "serializers \<Rightarrow> string \<Rightarrow> string \<Rightarrow> string" where
  "generate_vault_policy_json L group_name environment_name =
     (let policy = DDict [(''path'', DDict
            [(''secret/*'', DDict [(''capabilities'', DList [DStr ''list''])]),
             (''secret/'' @ group_name @ ''/+/'' @ environment_name,
                DDict [(''capabilities'',
                  DList [DStr ''read'', DStr ''list'', DStr ''update'', DStr ''create'',
                         DStr ''delete''])])])]
      in json_dumps_indent4 L policy)"

definition generate_k8s_regcred ::
  "serializers \<Rightarrow> string \<Rightarrow> string \<Rightarrow> string \<Rightarrow> string \<Rightarrow> string" where
  "generate_k8s_regcred L docker_server docker_username docker_password namespace =
     (let auth_string = b64encode (docker_username @ '':'' @ docker_password);
          secret_content = DDict [(''auths'', DDict
            [(docker_server @ '':4567'', DDict [(''auth'', DStr auth_string)])])];
          data = DDict [(''.dockerconfigjson'', DStr (b64encode (json_dumps L secret_content)))];
          secret = DDict [(''apiVersion'', DStr ''v1''),
                          (''kind'', DStr ''Secret''),
                          (''metadata'', DDict [(''name'', DStr ''regcred''),
                                                (''namespace'', DStr namespace)]),
                          (''data'', data),
                          (''type'', DStr ''kubernetes.io/dockerconfigjson'')]
      in yaml_dump L secret)"

section \<open>Exceptions, the outside world and sequencing\<close>

text \<open>
  The exceptions that reach the program. \<open>SystemExit\<close> is what \<open>sys.exit\<close> raises; it is
  the only one here that \<open>except Exception\<close> does not catch.
\<close>

datatype py_exc =
    InvalidPath
  | VaultError string
  | HTTPError string
  | GitlabCreateError string
  | GitlabGetError string
  | GitlabHttpError string
  | IndexError
  | NameError string
  | UnboundLocalError string
  | SystemExit string

fun is_Exception :: "py_exc \<Rightarrow> bool" where
  "is_Exception (SystemExit m) = False"
| "is_Exception e = True"

text \<open>\<open>str(e)\<close>, as the messages interpolate it.\<close>

fun exc_str :: "py_exc \<Rightarrow> string" where
  "exc_str InvalidPath = ''InvalidPath''"
| "exc_str (VaultError m) = m"
| "exc_str (HTTPError m) = m"
| "exc_str (GitlabCreateError m) = m"
| "exc_str (GitlabGetError m) = m"
| "exc_str (GitlabHttpError m) = m"
| "exc_str IndexError = ''list index out of range''"
| "exc_str (NameError n) = ''name '' @ sq @ n @ sq @ '' is not defined''"
| "exc_str (UnboundLocalError n) =
     ''cannot access local variable '' @ sq @ n @ sq @ '' where it is not associated with a value''"
| "exc_str (SystemExit m) = m"

subsection \<open>The Vault server, as the hvac client sees it\<close>

text \<open>
  The servers are outside the repository. Each is a state with the operations the
  clients call; \<open>vault_fault\<close> set makes every request fail with that message (server
  sealed, unreachable, permission denied). Identifiers the server makes up come from
  \<open>vault_ids\<close>, numbered by \<open>vault_issued\<close>.
\<close>

record approle =
  ar_role_id :: string
  ar_token_policies :: "string list"
  ar_token_type :: string

record vault_server =
  sys_policies :: "string \<rightharpoonup> string"
  approles :: "string \<rightharpoonup> approle"
  secret_ids :: "(string \<times> string) list"
  client_tokens :: "string list"
  kv_v1 :: "string \<times> string \<rightharpoonup> (string \<rightharpoonup> string)"
  vault_fault :: "string option"
  vault_ids :: "nat \<Rightarrow> string"
  vault_issued :: nat

subsection \<open>The Consul server, as the HTTP requests see it\<close>

record acl_policy =
  pol_ID :: string
  pol_Name :: string
  pol_Rules :: string

record acl_token =
  tok_AccessorID :: string
  tok_SecretID :: string
  tok_Description :: string
  tok_Policies :: "string list"

record consul_server =
  acl_policies :: "acl_policy list"
  acl_tokens :: "acl_token list"
  consul_fault :: "string option"
  consul_ids :: "nat \<Rightarrow> string"
  consul_issued :: nat

subsection \<open>The GitLab server, as the python-gitlab session sees it\<close>

record gl_group =
  grp_id :: nat
  grp_path :: string
  grp_parent :: "nat option"

record gl_project =
  proj_id :: nat
  proj_name :: string
  proj_namespace :: "nat option"
  proj_branches :: "string list"
  proj_protected :: "(string \<times> nat \<times> nat) list"
  proj_members :: "(nat \<times> nat) list"

text \<open>Every request the server receives is kept, in order, in \<open>gl_requests\<close>.\<close>

datatype gl_request =
    GroupsCreate string nat
  | GroupsGet nat
  | SubgroupsList nat
  | ProjectsCreate string "nat option" bool
  | ProjectsGet string
  | VariablesList nat
  | ProtectedBranchesCreate nat string nat nat
  | BranchesCreate nat string string
  | UsersList string
  | MembersCreate nat nat nat

record gitlab_server =
  gl_groups :: "gl_group list"
  gl_projects :: "gl_project list"
  gl_paths :: "(string \<times> nat) list"
  gl_variables :: "(nat \<times> string) list"
  gl_users :: "(string \<times> nat) list"
  gl_initial_branches :: "string list"
  gl_requests :: "gl_request list"
  gl_fault :: "string option"
  gl_next_id :: nat

subsection \<open>Programs\<close>

record world =
  gitlab :: gitlab_server
  vault :: vault_server
  consul :: consul_server
  stdout :: "string list"

text \<open>
  A statement of the source is a function from the world to an outcome (\<open>Inl\<close> the
  exception raised, \<open>Inr\<close> the value) and the world it leaves.
\<close>

type_synonym 'a prog = "world \<Rightarrow> (py_exc + 'a) \<times> world"

definition ret :: "'a \<Rightarrow> 'a prog" where
  "ret a w = (Inr a, w)"

definition raise :: "py_exc \<Rightarrow> 'a prog" where
  "raise e w = (Inl e, w)"

definition bind :: "'a prog \<Rightarrow> ('a \<Rightarrow> 'b prog) \<Rightarrow> 'b prog" where
  "bind m f w = (case m w of (Inl e, w') \<Rightarrow> (Inl e, w') | (Inr a, w') \<Rightarrow> f a w')"

text \<open>
  \<open>try: body except ...\<close>: the handler answers \<open>None\<close> for an exception no clause
  matches. An exception raised inside a clause is not caught again.
\<close>

definition try_except :: "'a prog \<Rightarrow> (py_exc \<Rightarrow> 'a prog option) \<Rightarrow> 'a prog" where
  "try_except body handler w =
     (case body w of
        (Inr a, w') \<Rightarrow> (Inr a, w')
      | (Inl e, w') \<Rightarrow> (case handler e of None \<Rightarrow> (Inl e, w') | Some h \<Rightarrow> h w'))"

primrec for_each :: "'a list \<Rightarrow> ('a \<Rightarrow> unit prog) \<Rightarrow> unit prog" where
  "for_each [] body = ret ()"
| "for_each (x # xs) body = bind (body x) (\<lambda>_. for_each xs body)"

definition print :: "string \<Rightarrow> unit prog" where
  "print line w = (Inr (), w\<lparr>stdout := stdout w @ [line]\<rparr>)"

section \<open>The hvac client\<close>

definition vault_request :: "(vault_server \<Rightarrow> (py_exc + 'a) \<times> vault_server) \<Rightarrow> 'a prog" where
  "vault_request f w =
     (case vault_fault (vault w) of
        Some msg \<Rightarrow> (Inl (VaultError msg), w)
      | None \<Rightarrow> (case f (vault w) of (r, v') \<Rightarrow> (r, w\<lparr>vault := v'\<rparr>)))"

definition hvac_create_or_update_policy :: "string \<Rightarrow> string \<Rightarrow> unit prog" where
  "hvac_create_or_update_policy name policy =
     vault_request (\<lambda>v. (Inr (), v\<lparr>sys_policies := (sys_policies v)(name \<mapsto> policy)\<rparr>))"

definition hvac_read_role_id :: "string \<Rightarrow> string prog" where
  "hvac_read_role_id role_name =
     vault_request (\<lambda>v. case approles v role_name of
        None \<Rightarrow> (Inl InvalidPath, v)
      | Some r \<Rightarrow> (Inr (ar_role_id r), v))"

definition hvac_create_or_update_approle :: "string \<Rightarrow> string list \<Rightarrow> string \<Rightarrow> unit prog" where
  "hvac_create_or_update_approle role_name token_policies token_type =
     vault_request (\<lambda>v. case approles v role_name of
        Some r \<Rightarrow>
          (Inr (), v\<lparr>approles := (approles v)(role_name \<mapsto>
             r\<lparr>ar_token_policies := token_policies, ar_token_type := token_type\<rparr>)\<rparr>)
      | None \<Rightarrow>
          (Inr (), v\<lparr>approles := (approles v)(role_name \<mapsto>
             \<lparr>ar_role_id = vault_ids v (vault_issued v),
              ar_token_policies = token_policies, ar_token_type = token_type\<rparr>),
             vault_issued := Suc (vault_issued v)\<rparr>))"

definition hvac_generate_secret_id :: "string \<Rightarrow> string prog" where
  "hvac_generate_secret_id role_name =
     vault_request (\<lambda>v. case approles v role_name of
        None \<Rightarrow> (Inl InvalidPath, v)
      | Some r \<Rightarrow>
          (Inr (vault_ids v (vault_issued v)),
           v\<lparr>secret_ids := secret_ids v @ [(role_name, vault_ids v (vault_issued v))],
             vault_issued := Suc (vault_issued v)\<rparr>))"

definition hvac_login :: "string \<Rightarrow> string \<Rightarrow> string prog" where
  "hvac_login role_id secret_id =
     vault_request (\<lambda>v.
        if \<exists>(role_name, sid) \<in> set (secret_ids v). sid = secret_id \<and>
             (case approles v role_name of None \<Rightarrow> False | Some r \<Rightarrow> ar_role_id r = role_id)
        then (Inr (vault_ids v (vault_issued v)),
              v\<lparr>client_tokens := client_tokens v @ [vault_ids v (vault_issued v)],
                vault_issued := Suc (vault_issued v)\<rparr>)
        else (Inl (VaultError ''invalid role or secret ID''), v))"

definition hvac_read_secret :: "string \<Rightarrow> string \<Rightarrow> (string \<rightharpoonup> string) prog" where
  "hvac_read_secret mount_point path =
     vault_request (\<lambda>v. case kv_v1 v (mount_point, path) of
        None \<Rightarrow> (Inl InvalidPath, v)
      | Some data \<Rightarrow> (Inr data, v))"

definition hvac_create_or_update_secret ::
  "string \<Rightarrow> string \<Rightarrow> (string \<rightharpoonup> string) \<Rightarrow> unit prog" where
  "hvac_create_or_update_secret mount_point path secret =
     vault_request (\<lambda>v. (Inr (), v\<lparr>kv_v1 := (kv_v1 v)((mount_point, path) \<mapsto> secret)\<rparr>))"

section \<open>VaultManager (core/integration/vault\_integration.py)\<close>

definition VaultManager_create_policy :: "string \<Rightarrow> string \<Rightarrow> unit prog" where
  "VaultManager_create_policy policy_name policy_rules =
     try_except (hvac_create_or_update_policy policy_name policy_rules)
       (\<lambda>e. if is_Exception e
             then Some (print (''Error creating policy: '' @ exc_str e))
             else None)"

definition VaultManager_create_or_get_role_id :: "string \<Rightarrow> string \<Rightarrow> string prog" where
  "VaultManager_create_or_get_role_id role_name policy_name =
     try_except (hvac_read_role_id role_name)
       (\<lambda>e. case e of
          InvalidPath \<Rightarrow> Some (
            bind (print ''Vault Role does not exist, creating a new one...'') (\<lambda>_.
            bind (hvac_create_or_update_approle role_name [policy_name] ''service'') (\<lambda>_.
            hvac_read_role_id role_name)))
        | _ \<Rightarrow> None)"

definition VaultManager_generate_secret_id_and_login ::
  "string \<Rightarrow> string \<Rightarrow> (string \<times> string) prog" where
  "VaultManager_generate_secret_id_and_login role_name role_id =
     bind (hvac_generate_secret_id role_name) (\<lambda>secret_id.
     bind (hvac_login role_id secret_id) (\<lambda>client_token.
     bind (print (''Vault Client Token: '' @ client_token)) (\<lambda>_.
     ret (secret_id, client_token))))"

definition generate_vault_secret ::
  "serializers \<Rightarrow> string \<Rightarrow> string \<Rightarrow> string \<Rightarrow> string prog" where
  "generate_vault_secret L group_name environment_name namespace =
     (let policy_name = group_name @ ''_'' @ environment_name @ ''_policy'';
          policy_rules = generate_vault_policy_json L group_name environment_name in
      bind (VaultManager_create_policy policy_name policy_rules) (\<lambda>_.
      let role_name = group_name @ ''_'' @ environment_name @ ''_role'' in
      bind (VaultManager_create_or_get_role_id role_name policy_name) (\<lambda>role_id.
      bind (VaultManager_generate_secret_id_and_login role_name role_id) (\<lambda>(secret_id, _).
      let encoded_role_id = b64encode role_id;
          encoded_secret_id = b64encode secret_id in
      ret (generate_vault_k8s_secret L group_name namespace encoded_role_id encoded_secret_id)))))"

definition write_secret_to_vault :: "string \<Rightarrow> string \<Rightarrow> string \<Rightarrow> string \<Rightarrow> unit prog" where
  "write_secret_to_vault mount_point secret_path secret_key secret_value =
     bind (try_except (hvac_read_secret mount_point secret_path)
             (\<lambda>e. case e of
                InvalidPath \<Rightarrow> Some (
                  bind (print ''No existing data found, initializing new secret.'') (\<lambda>_.
                  ret Map.empty))
              | _ \<Rightarrow> None)) (\<lambda>existing_data.
     let updated_data = existing_data(secret_key \<mapsto> secret_value) in
     bind (hvac_create_or_update_secret mount_point secret_path updated_data) (\<lambda>_.
     print (''Secret written/appended to '' @ mount_point @ ''/'' @ secret_path
              @ '' successfully.'')))"

text \<open>
  What \<open>write_secret_to_vault\<close> starts from: the map stored at the path, the empty map
  when the read raises \<open>InvalidPath\<close>.
\<close>

definition existing_secret :: "world \<Rightarrow> string \<Rightarrow> string \<Rightarrow> (string \<rightharpoonup> string)" where
  "existing_secret w mount_point path =
     (case kv_v1 (vault w) (mount_point, path) of None \<Rightarrow> Map.empty | Some data \<Rightarrow> data)"

section \<open>The Consul HTTP API\<close>

text \<open>
  One request: \<open>requests.get\<close> or \<open>requests.put\<close>, then \<open>raise_for_status\<close>, then
  \<open>.json()\<close>. A \<open>PUT\<close> of a policy or a token stores what it is given under
  identifiers the server chooses, and answers with the stored record.
\<close>

definition consul_request :: "(consul_server \<Rightarrow> 'a \<times> consul_server) \<Rightarrow> 'a prog" where
  "consul_request f w =
     (case consul_fault (consul w) of
        Some msg \<Rightarrow> (Inl (HTTPError msg), w)
      | None \<Rightarrow> (case f (consul w) of (a, c') \<Rightarrow> (Inr a, w\<lparr>consul := c'\<rparr>)))"

definition get_acl_policies :: "acl_policy list prog" where
  "get_acl_policies = consul_request (\<lambda>c. (acl_policies c, c))"

definition put_acl_policy :: "string \<Rightarrow> string \<Rightarrow> acl_policy prog" where
  "put_acl_policy name rules =
     consul_request (\<lambda>c.
       let p = \<lparr>pol_ID = consul_ids c (consul_issued c), pol_Name = name, pol_Rules = rules\<rparr>
       in (p, c\<lparr>acl_policies := acl_policies c @ [p], consul_issued := Suc (consul_issued c)\<rparr>))"

definition get_acl_tokens :: "acl_token list prog" where
  "get_acl_tokens = consul_request (\<lambda>c. (acl_tokens c, c))"

definition put_acl_token :: "string \<Rightarrow> string list \<Rightarrow> acl_token prog" where
  "put_acl_token description policy_ids =
     consul_request (\<lambda>c.
       let t = \<lparr>tok_AccessorID = consul_ids c (consul_issued c),
                tok_SecretID = consul_ids c (Suc (consul_issued c)),
                tok_Description = description, tok_Policies = policy_ids\<rparr>
       in (t, c\<lparr>acl_tokens := acl_tokens c @ [t],
                consul_issued := Suc (Suc (consul_issued c))\<rparr>))"

section \<open>ConsulManager (core/integration/consul\_integration.py)\<close>

definition ConsulManager_get_policy :: "string \<Rightarrow> acl_policy option prog" where
  "ConsulManager_get_policy name =
     bind get_acl_policies (\<lambda>policies.
     ret (find (\<lambda>policy. pol_Name policy = name) policies))"

text \<open>\<open>if existing_policy:\<close> holds for every policy found: a policy is a non-empty dict.\<close>

definition ConsulManager_create_policy :: "string \<Rightarrow> string \<Rightarrow> acl_policy prog" where
  "ConsulManager_create_policy name rules =
     bind (ConsulManager_get_policy name) (\<lambda>existing_policy.
     case existing_policy of
       Some policy \<Rightarrow> ret policy
     | None \<Rightarrow> put_acl_policy name rules)"

definition ConsulManager_get_tokens :: "acl_token list prog" where
  "ConsulManager_get_tokens = get_acl_tokens"

definition ConsulManager_token_exists :: "string \<Rightarrow> acl_token option prog" where
  "ConsulManager_token_exists description =
     bind ConsulManager_get_tokens (\<lambda>tokens.
     ret (find (\<lambda>token. tok_Description token = description) tokens))"

definition ConsulManager_create_token :: "string list option \<Rightarrow> string \<Rightarrow> acl_token prog" where
  "ConsulManager_create_token policies description =
     bind (ConsulManager_token_exists description) (\<lambda>existing_token.
     case existing_token of
       Some token \<Rightarrow>
         bind (print (''Token with description '' @ sq @ description @ sq @ '' already exists.''))
           (\<lambda>_. ret token)
     | None \<Rightarrow>
         put_acl_token description (case policies of None \<Rightarrow> [] | Some ps \<Rightarrow> ps))"

definition generate_consul_secret :: "serializers \<Rightarrow> string \<Rightarrow> string \<Rightarrow> string prog" where
  "generate_consul_secret L group_name namespace =
     (let policy_name = group_name;
          policy_rules = ''key_prefix '' @ dq @ policy_name @ ''/'' @ dq
                           @ '' { policy = '' @ dq @ ''write'' @ dq @ '' }'' in
      bind (ConsulManager_create_policy policy_name policy_rules) (\<lambda>policy_response.
      let policy_id = pol_ID policy_response;
          token_description = group_name in
      bind (ConsulManager_create_token (Some [policy_id]) token_description) (\<lambda>token_response.
      let token_secret = tok_SecretID token_response in
      bind (print ''-------------------------------'') (\<lambda>_.
      bind (print (''Consul Client Token: '' @ token_secret)) (\<lambda>_.
      ret (generate_consul_k8s_secret L group_name namespace token_secret))))))"

section \<open>Configuration (core/settings/config\_variables.py)\<close>

text \<open>
  The class attributes the workflow reads. \<open>CI_SUBGROUP_NAME\<close> and \<open>CI_PROJECT_NAME\<close>
  are strings: \<open>EnvironmentValidator.check_environment\<close> leaves the process when either
  is \<open>None\<close>. The attributes the source compares with \<open>None\<close> or passes to
  \<open>convert_string_to_list\<close> keep their \<open>Optional\<close> type. \<open>CD_HELM_NAMESPACE\<close> and
  the three \<open>CI_GITLAB\<close> attributes are \<open>Optional\<close> in the source too and are not
  validated; they are taken here as set, and a run with one of them \<open>None\<close> is outside
  this model.
\<close>

record conf =
  CI_SUBGROUP_NAME :: string
  CI_PROJECT_NAME :: string
  CI_PROJECT_MODE :: "string option"
  CI_PROJECT_MM_MODULE_NAME :: "string option"
  CD_HELM_NAMESPACE :: string
  CI_ACCESS_MAINTAINER :: "string option"
  CI_ACCESS_DEVELOPER :: "string option"
  envBranches :: "string list"
  CI_GITLAB_SERVER :: string
  CI_GITLAB_USERNAME :: string
  CI_GITLAB_PASSWORD :: string

definition CI_CODE_GROUP_ID :: nat where
  "CI_CODE_GROUP_ID = 453"

definition CI_CHART_GROUP_ID :: nat where
  "CI_CHART_GROUP_ID = 452"

definition CI_MAIN_GROUP_DEVOPS :: string where
  "CI_MAIN_GROUP_DEVOPS = ''devops''"

definition devops_project_provisioning :: string where
  "devops_project_provisioning = ''devops-project-provisioning''"

definition branches :: "string list" where
  "branches = [''develop'', ''master'']"

text \<open>The access levels of python-gitlab.\<close>

definition REPORTER_ACCESS :: nat where
  "REPORTER_ACCESS = 20"

definition DEVELOPER_ACCESS :: nat where
  "DEVELOPER_ACCESS = 30"

definition MAINTAINER_ACCESS :: nat where
  "MAINTAINER_ACCESS = 40"

section \<open>CommandManager (core/utilities/command\_executor.py)\<close>

text \<open>
  \<open>str.split()\<close> without arguments: the words between runs of ASCII whitespace. Python
  also splits at the whitespace characters outside ASCII (such as U+0085, U+00A0, U+2003 and
  U+3000); a name list holding one of those is outside this model.
\<close>

definition is_space :: "char \<Rightarrow> bool" where
  "is_space ch = (ch \<in> set [CHR '' '', CHR 0x09, CHR 0x0A, CHR 0x0B, CHR 0x0C, CHR 0x0D,
                             CHR 0x1C, CHR 0x1D, CHR 0x1E, CHR 0x1F])"

fun split_words :: "string \<Rightarrow> string \<Rightarrow> string list" where
  "split_words cur [] = (if cur = [] then [] else [cur])"
| "split_words cur (ch # rest) =
     (if is_space ch
      then (if cur = [] then split_words [] rest else cur # split_words [] rest)
      else split_words (cur @ [ch]) rest)"

definition convert_string_to_list :: "string option \<Rightarrow> string list" where
  "convert_string_to_list string =
     (case string of None \<Rightarrow> [] | Some s \<Rightarrow> split_words [] s)"

definition convert_key_format :: "string \<Rightarrow> string" where
  "convert_key_format key = map (\<lambda>ch. if ch = CHR ''-'' then CHR ''_'' else ch) key"

section \<open>The python-gitlab session\<close>

text \<open>
  Every call is one request. The server keeps it in \<open>gl_requests\<close>, fails it with
  \<open>gl_fault\<close> when that is set, and otherwise answers from its state. A name that is
  taken makes a creation fail with a message that contains \<open>has already been taken\<close>.
\<close>

definition taken_message :: string where
  "taken_message = ''400: {'' @ sq @ ''name'' @ sq @ '': ['' @ sq @ ''has already been taken''
                     @ sq @ '']}''"

definition gitlab_request ::
  "gl_request \<Rightarrow> (gitlab_server \<Rightarrow> (py_exc + 'a) \<times> gitlab_server) \<Rightarrow> 'a prog" where
  "gitlab_request rq f w =
     (let g = (gitlab w)\<lparr>gl_requests := gl_requests (gitlab w) @ [rq]\<rparr> in
      case gl_fault g of
        Some msg \<Rightarrow> (Inl (GitlabHttpError msg), w\<lparr>gitlab := g\<rparr>)
      | None \<Rightarrow> (case f g of (r, g') \<Rightarrow> (r, w\<lparr>gitlab := g'\<rparr>)))"

definition update_project ::
  "nat \<Rightarrow> (gl_project \<Rightarrow> gl_project) \<Rightarrow> gitlab_server \<Rightarrow> gitlab_server" where
  "update_project pid f g =
     g\<lparr>gl_projects := map (\<lambda>p. if proj_id p = pid then f p else p) (gl_projects g)\<rparr>"

definition groups_create :: "string \<Rightarrow> nat \<Rightarrow> nat prog" where
  "groups_create name parent_id =
     gitlab_request (GroupsCreate name parent_id) (\<lambda>g.
       if \<exists>grp \<in> set (gl_groups g). grp_path grp = name \<and> grp_parent grp = Some parent_id
       then (Inl (GitlabCreateError taken_message), g)
       else (Inr (gl_next_id g),
             g\<lparr>gl_groups := gl_groups g @
                  [\<lparr>grp_id = gl_next_id g, grp_path = name, grp_parent = Some parent_id\<rparr>],
               gl_next_id := Suc (gl_next_id g)\<rparr>))"

definition groups_get :: "nat \<Rightarrow> nat prog" where
  "groups_get group_id =
     gitlab_request (GroupsGet group_id) (\<lambda>g.
       if \<exists>grp \<in> set (gl_groups g). grp_id grp = group_id
       then (Inr group_id, g)
       else (Inl (GitlabGetError ''404: Group Not Found''), g))"

definition subgroups_list :: "nat \<Rightarrow> gl_group list prog" where
  "subgroups_list group_id =
     gitlab_request (SubgroupsList group_id) (\<lambda>g.
       (Inr (filter (\<lambda>grp. grp_parent grp = Some group_id) (gl_groups g)), g))"

definition projects_create :: "string \<Rightarrow> nat option \<Rightarrow> bool \<Rightarrow> nat prog" where
  "projects_create name namespace_id container_policy =
     gitlab_request (ProjectsCreate name namespace_id container_policy) (\<lambda>g.
       if \<exists>p \<in> set (gl_projects g). proj_name p = name \<and> proj_namespace p = namespace_id
       then (Inl (GitlabCreateError taken_message), g)
       else (Inr (gl_next_id g),
             g\<lparr>gl_projects := gl_projects g @
                  [\<lparr>proj_id = gl_next_id g, proj_name = name, proj_namespace = namespace_id,
                    proj_branches = gl_initial_branches g, proj_protected = [],
                    proj_members = []\<rparr>],
               gl_next_id := Suc (gl_next_id g)\<rparr>))"

definition projects_get :: "string \<Rightarrow> nat prog" where
  "projects_get path =
     gitlab_request (ProjectsGet path) (\<lambda>g.
       case map_of (gl_paths g) path of
         None \<Rightarrow> (Inl (GitlabGetError ''404: Project Not Found''), g)
       | Some pid \<Rightarrow> (Inr pid, g))"

definition variables_list :: "nat \<Rightarrow> string list prog" where
  "variables_list pid =
     gitlab_request (VariablesList pid) (\<lambda>g.
       (Inr (map snd (filter (\<lambda>(p, key). p = pid) (gl_variables g))), g))"

definition protectedbranches_create :: "nat \<Rightarrow> string \<Rightarrow> nat \<Rightarrow> nat \<Rightarrow> unit prog" where
  "protectedbranches_create pid name merge_access_level push_access_level =
     gitlab_request (ProtectedBranchesCreate pid name merge_access_level push_access_level) (\<lambda>g.
       case find (\<lambda>p. proj_id p = pid) (gl_projects g) of
         None \<Rightarrow> (Inl (GitlabCreateError ''404: Project Not Found''), g)
       | Some p \<Rightarrow>
           if name \<in> fst ` set (proj_protected p)
           then (Inl (GitlabCreateError (''409: Protected branch '' @ sq @ name @ sq
                        @ '' already exists'')), g)
           else (Inr (), update_project pid (\<lambda>p. p\<lparr>proj_protected := proj_protected p @
                           [(name, merge_access_level, push_access_level)]\<rparr>) g))"

text \<open>Why the server refuses to create a branch, if it does.\<close>

definition branch_creation_error :: "string list \<Rightarrow> string \<Rightarrow> string \<Rightarrow> string option" where
  "branch_creation_error existing branch ref =
     (if ref \<notin> set existing then Some (''400: Invalid reference name: '' @ ref)
      else if branch \<in> set existing then Some ''400: Branch already exists''
      else None)"

definition branches_create :: "nat \<Rightarrow> string \<Rightarrow> string \<Rightarrow> unit prog" where
  "branches_create pid branch ref =
     gitlab_request (BranchesCreate pid branch ref) (\<lambda>g.
       case find (\<lambda>p. proj_id p = pid) (gl_projects g) of
         None \<Rightarrow> (Inl (GitlabCreateError ''404: Project Not Found''), g)
       | Some p \<Rightarrow>
           (case branch_creation_error (proj_branches p) branch ref of
              Some m \<Rightarrow> (Inl (GitlabCreateError m), g)
            | None \<Rightarrow> (Inr (), update_project pid
                           (\<lambda>p. p\<lparr>proj_branches := proj_branches p @ [branch]\<rparr>) g)))"

definition user_lookup :: "gitlab_server \<Rightarrow> string \<Rightarrow> nat list" where
  "user_lookup g username = map snd (filter (\<lambda>(name, uid). name = username) (gl_users g))"

definition users_list :: "string \<Rightarrow> nat list prog" where
  "users_list username =
     gitlab_request (UsersList username) (\<lambda>g. (Inr (user_lookup g username), g))"

definition members_create :: "nat \<Rightarrow> nat \<Rightarrow> nat \<Rightarrow> unit prog" where
  "members_create pid user_id access_level =
     gitlab_request (MembersCreate pid user_id access_level) (\<lambda>g.
       case find (\<lambda>p. proj_id p = pid) (gl_projects g) of
         None \<Rightarrow> (Inl (GitlabCreateError ''404: Project Not Found''), g)
       | Some p \<Rightarrow>
           if user_id \<in> fst ` set (proj_members p)
           then (Inl (GitlabCreateError ''409: Member already exists''), g)
           else (Inr (), update_project pid
                           (\<lambda>p. p\<lparr>proj_members := proj_members p @ [(user_id, access_level)]\<rparr>) g))"

section \<open>GitlabProjectManager (core/operation/project\_manager.py)\<close>

definition create_subgroup :: "conf \<Rightarrow> nat \<Rightarrow> nat option prog" where
  "create_subgroup c group_id =
     try_except
       (bind (groups_create (CI_SUBGROUP_NAME c) group_id) (\<lambda>creation_subgroup.
        ret (Some creation_subgroup)))
       (\<lambda>e. case e of
          GitlabCreateError m \<Rightarrow> Some (
            if is_substring ''has already been taken'' m
            then
              bind (groups_get group_id) (\<lambda>parent_group.
              bind (subgroups_list parent_group) (\<lambda>subgroups.
              case find (\<lambda>subgroup. grp_path subgroup = CI_SUBGROUP_NAME c) subgroups of
                Some subgroup \<Rightarrow>
                  bind (print (''Subgroup '' @ sq @ CI_SUBGROUP_NAME c @ sq
                                 @ '' already exists.'')) (\<lambda>_.
                  ret (Some (grp_id subgroup)))
              | None \<Rightarrow> ret None))
            else
              bind (print (''Failed to create subgroup '' @ sq @ CI_SUBGROUP_NAME c @ sq
                             @ '': '' @ m)) (\<lambda>_.
              ret None))
        | _ \<Rightarrow>
            if is_Exception e
            then Some (bind (print (''An error occurred: '' @ exc_str e)) (\<lambda>_. ret None))
            else None)"

text \<open>
  The body of the loop over \<open>GitlabEnvConf.branches\<close>, the same in
  \<open>create_project_code\<close> and \<open>create_project_chart\<close> but for the group named in the
  messages (\<open>area\<close> is \<open>CODE\<close> or \<open>CHART\<close>; \<open>failed\<close> is the start of the failure
  message, which the two functions punctuate differently).
\<close>

definition protect_and_create_branch :: "string \<Rightarrow> string \<Rightarrow> nat \<Rightarrow> string \<Rightarrow> unit prog" where
  "protect_and_create_branch area failed project branch_name =
     bind (protectedbranches_create project branch_name DEVELOPER_ACCESS MAINTAINER_ACCESS) (\<lambda>_.
     let ref = (if branch_name = ''develop'' then ''main'' else ''develop'') in
     try_except
       (bind (branches_create project branch_name ref) (\<lambda>_.
        print (''Branch '' @ sq @ branch_name @ sq @ '' created from '' @ sq @ ref @ '' in ''
                 @ area @ '' group'' @ sq @ ''.'')))
       (\<lambda>e. case e of
          GitlabCreateError m \<Rightarrow>
            Some (print (failed @ sq @ branch_name @ sq @ '': '' @ m))
        | _ \<Rightarrow> None))"

text \<open>
  How control leaves the \<open>try\<close> statement of \<open>create_project_code\<close>: \<open>Created\<close> is
  the project made by \<open>projects.create\<close>, inside the statement; \<open>Proceed\<close> goes on to
  the statements after it, with the local variable that holds the project bound or not;
  \<open>Return\<close> is the \<open>return\<close> of the last clause.
\<close>

datatype flow = Created nat | Proceed "nat option" | Return

text \<open>
  The two \<open>except\<close> clauses. \<open>bound\<close> is the project variable at the point of the
  exception. \<open>exit\<close> is \<open>sys.exit\<close>: it raises \<open>SystemExit\<close> with the message.
\<close>

definition project_except :: "string \<Rightarrow> string \<Rightarrow> nat option \<Rightarrow> py_exc \<Rightarrow> flow prog option" where
  "project_except area name bound e =
     (case e of
        GitlabCreateError m \<Rightarrow> Some (
          if is_substring ''has already been taken'' m
          then raise (SystemExit (''Project '' @ sq @ name @ sq @ '' already exists in '' @ area
                                    @ '' group. Skipping creation.''))
          else ret (Proceed bound))
      | _ \<Rightarrow>
          if is_Exception e
          then Some (bind (print (''An error occurred: '' @ exc_str e)) (\<lambda>_. ret Return))
          else None)"

text \<open>
  The \<open>try\<close> statement: the clauses guard the creation of the project and, once the
  variable is bound, the rest of the body.
\<close>

definition try_create_project ::
  "string \<Rightarrow> string \<Rightarrow> string \<Rightarrow> nat option \<Rightarrow> bool \<Rightarrow> flow prog" where
  "try_create_project area failed name namespace_id container_policy =
     bind (try_except
             (bind (projects_create name namespace_id container_policy) (\<lambda>project.
              ret (Created project)))
             (project_except area name None)) (\<lambda>reached.
     case reached of
       Created project \<Rightarrow>
         try_except
           (bind (print (''Project '' @ sq @ name @ sq @ '' created successfully.'')) (\<lambda>_.
            bind (for_each branches (protect_and_create_branch area failed project)) (\<lambda>_.
            ret (Proceed (Some project)))))
           (project_except area name (Some project))
     | _ \<Rightarrow> ret reached)"

text \<open>
  One user of the membership loops. \<open>variable\<close> is the name of the local variable that
  holds the project, for the error when it is read unbound.
\<close>

definition assign_member :: "string \<Rightarrow> nat option \<Rightarrow> string \<Rightarrow> string \<Rightarrow> unit prog" where
  "assign_member variable project role username =
     try_except
       (bind (users_list username) (\<lambda>users.
        bind (case users of [] \<Rightarrow> raise IndexError | user # _ \<Rightarrow> ret user) (\<lambda>user.
        bind (case project of
                None \<Rightarrow> raise (UnboundLocalError variable)
              | Some p \<Rightarrow> members_create p user REPORTER_ACCESS) (\<lambda>_.
        print (''Added '' @ role @ '': '' @ username)))))
       (\<lambda>e. case e of
          IndexError \<Rightarrow> Some (print (username @ '' for '' @ role @ '' access is not available''))
        | _ \<Rightarrow> None)"

definition assign_roles :: "string \<Rightarrow> nat option \<Rightarrow> (string \<times> string list) list \<Rightarrow> unit prog" where
  "assign_roles variable project roles =
     for_each roles (\<lambda>(role, users).
       for_each users (\<lambda>username. assign_member variable project role username))"

definition assign_members :: "conf \<Rightarrow> string \<Rightarrow> nat option \<Rightarrow> unit prog" where
  "assign_members c variable project =
     (let developers = convert_string_to_list (CI_ACCESS_DEVELOPER c);
          maintainers = convert_string_to_list (CI_ACCESS_MAINTAINER c) in
      assign_roles variable project [(''maintainer'', maintainers), (''developer'', developers)])"

definition create_project_code :: "conf \<Rightarrow> unit prog" where
  "create_project_code c =
     bind (create_subgroup c CI_CODE_GROUP_ID) (\<lambda>code_subgroup_child_id.
     bind (try_create_project ''CODE'' ''Creation of branch on CODE group ''
             (CI_PROJECT_NAME c) code_subgroup_child_id True) (\<lambda>reached.
     case reached of
       Proceed code_subgroup_project \<Rightarrow>
         assign_members c ''code_subgroup_project'' code_subgroup_project
     | _ \<Rightarrow> ret ()))"

text \<open>The name of the chart project: the module of a multi-module project, or the project.\<close>

definition chart_module :: "conf \<Rightarrow> string" where
  "chart_module c =
     (case CI_PROJECT_MM_MODULE_NAME c of
        Some module_name \<Rightarrow>
          if CI_PROJECT_MODE c = Some ''MULTI'' then module_name else CI_PROJECT_NAME c
      | None \<Rightarrow> CI_PROJECT_NAME c)"

definition create_project_chart :: "conf \<Rightarrow> unit prog" where
  "create_project_chart c =
     bind (create_subgroup c CI_CHART_GROUP_ID) (\<lambda>chart_subgroup_child_id.
     let module = chart_module c in
     bind (try_create_project ''CHART'' ''Creation of branch on CHART group: ''
             module chart_subgroup_child_id False) (\<lambda>reached.
     case reached of
       Proceed chart_subgroup_project \<Rightarrow>
         assign_members c ''chart_subgroup_project'' chart_subgroup_project
     | _ \<Rightarrow> ret ()))"

subsection \<open>create\_global\_variable\<close>

text \<open>
  Reading a name. A name is bound when the function has assigned it or the module defines
  it (its imports and its class); reading any other name that is not a builtin raises
  \<open>NameError\<close>. The values are kept as far as the function uses them.
\<close>

datatype pyval = PNone | PStr string | PObject

definition module_names :: "string list" where
  "module_names =
     [''Gitlab'', ''exceptions'', ''REPORTER_ACCESS'', ''DEVELOPER_ACCESS'',
      ''MAINTAINER_ACCESS'', ''exit'', ''GitlabAuth'', ''GitlabAuthConf'', ''GitlabEnvConf'',
      ''PathConf'', ''ContainerExprPolicy'', ''ConsulAuthConf'', ''CommandManager'',
      ''VaultManager'', ''ConsulManager'', ''TemplateGenerator'', ''Optional'', ''List'',
      ''GitlabProjectManager'']"

text \<open>The names bound at the test of the loop body, for the branch of the iteration.\<close>

definition global_variable_frame :: "string \<Rightarrow> string \<rightharpoonup> pyval" where
  "global_variable_frame branch =
     (map_of (map (\<lambda>name. (name, PObject)) module_names))
       (''self'' \<mapsto> PObject,
        ''project_name_devops_provisioning'' \<mapsto>
            PStr (CI_MAIN_GROUP_DEVOPS @ ''/'' @ devops_project_provisioning),
        ''devops_project_provisioning'' \<mapsto> PObject,
        ''existing_variables'' \<mapsto> PObject,
        ''branch'' \<mapsto> PStr branch,
        ''vault_secret_value'' \<mapsto> PNone,
        ''consul_secret_value'' \<mapsto> PNone,
        ''regcred_secret_value'' \<mapsto> PNone,
        ''vault_manager'' \<mapsto> PObject,
        ''consul_manager'' \<mapsto> PObject)"

definition load_name :: "(string \<rightharpoonup> pyval) \<Rightarrow> string \<Rightarrow> pyval prog" where
  "load_name frame name =
     (case frame name of None \<Rightarrow> raise (NameError name) | Some v \<Rightarrow> ret v)"

text \<open>\<open>key not in existing_variables\<close>, a dict keyed by the names of the variables.\<close>

definition key_absent :: "pyval \<Rightarrow> string list \<Rightarrow> bool" where
  "key_absent key existing_variables =
     (case key of PStr k \<Rightarrow> k \<notin> set existing_variables | _ \<Rightarrow> True)"

definition pyval_text :: "pyval \<Rightarrow> string" where
  "pyval_text v = (case v of PStr s \<Rightarrow> s | PNone \<Rightarrow> ''None'' | PObject \<Rightarrow> ''object'')"

text \<open>
  The body of \<open>if converted_secret_key not in existing_variables\<close>. The arguments of
  the call of \<open>write_secret_to_vault\<close> are evaluated before the call, \<open>secret_value\<close>
  last.
\<close>

definition write_branch_secret ::
  "serializers \<Rightarrow> conf \<Rightarrow> (string \<rightharpoonup> pyval) \<Rightarrow> string \<Rightarrow> unit prog" where
  "write_branch_secret L c frame branch =
     bind (generate_consul_secret L (CI_SUBGROUP_NAME c) (CD_HELM_NAMESPACE c))
       (\<lambda>consul_secret_value.
     bind (if branch \<in> set [''dev'', ''devdmz'']
           then bind (generate_vault_secret L (CI_SUBGROUP_NAME c) ''dev'' (CD_HELM_NAMESPACE c))
                  (\<lambda>secret. ret (PStr secret))
           else ret PNone) (\<lambda>vault_secret_value.
     bind (if branch \<in> set [''prod'', ''proddmz'', ''procdnz'']
           then bind (generate_vault_secret L (CI_SUBGROUP_NAME c) ''prod'' (CD_HELM_NAMESPACE c))
                  (\<lambda>secret. ret (PStr secret))
           else ret vault_secret_value) (\<lambda>vault_secret_value.
     let regcred_secret_value =
           generate_k8s_regcred L (CI_GITLAB_SERVER c) (CI_GITLAB_USERNAME c)
             (CI_GITLAB_PASSWORD c) (CD_HELM_NAMESPACE c);
         frame = frame(''consul_secret_value'' \<mapsto> PStr consul_secret_value,
                       ''vault_secret_value'' \<mapsto> vault_secret_value,
                       ''regcred_secret_value'' \<mapsto> PStr regcred_secret_value) in
     bind (load_name frame ''secret_value'') (\<lambda>secret_value.
     write_secret_to_vault ''devops_kv'' (branch @ ''/kubernetes/namespace'')
       (convert_key_format (CD_HELM_NAMESPACE c)) (pyval_text secret_value)))))"

definition create_global_variable :: "serializers \<Rightarrow> conf \<Rightarrow> unit prog" where
  "create_global_variable L c =
     (let project_name_devops_provisioning =
            CI_MAIN_GROUP_DEVOPS @ ''/'' @ devops_project_provisioning in
      bind (projects_get project_name_devops_provisioning) (\<lambda>devops_project.
      bind (variables_list devops_project) (\<lambda>existing_variables.
      for_each (envBranches c) (\<lambda>branch.
        let frame = global_variable_frame branch in
        bind (load_name frame ''converted_secret_key'') (\<lambda>converted_secret_key.
        if key_absent converted_secret_key existing_variables
        then write_branch_secret L c frame branch
        else ret ())))))"

text \<open>A program keeps a part of the world when every run leaves that part as it was.\<close>

definition keeps :: "(world \<Rightarrow> 'x) \<Rightarrow> 'a prog \<Rightarrow> bool" where
  "keeps part m = (\<forall>w. part (snd (m w)) = part w)"

text \<open>The rule text of the scenario with group \<open>payments\<close>.\<close>

definition payments_rule :: string where
  "payments_rule =
     ''key_prefix '' @ dq @ ''payments/'' @ dq @ '' { policy = '' @ dq @ ''write'' @ dq @ '' }''"

section \<open>Concrete inputs\<close>

text \<open>A serialiser and servers to run the program on.\<close>

fun show_doc :: "doc \<Rightarrow> string" where
  "show_doc (DStr s) = dq @ s @ dq"
| "show_doc (DBool b) = (if b then ''true'' else ''false'')"
| "show_doc (DList ds) = ''['' @ concat (map (\<lambda>d. show_doc d @ '','') ds) @ '']''"
| "show_doc (DDict kvs) =
     ''{'' @ concat (map (\<lambda>(k, d). dq @ k @ dq @ '':'' @ show_doc d @ '','') kvs) @ ''}''"

definition serial0 :: serializers where
  "serial0 = \<lparr>yaml_dump = show_doc, json_dumps = show_doc, json_dumps_indent4 = show_doc\<rparr>"

definition ids0 :: "nat \<Rightarrow> string" where
  "ids0 n = ''id-'' @ replicate n (CHR ''x'')"

definition vault0 :: vault_server where
  "vault0 = \<lparr>sys_policies = Map.empty, approles = Map.empty, secret_ids = [],
     client_tokens = [], kv_v1 = Map.empty, vault_fault = None, vault_ids = ids0,
     vault_issued = 0\<rparr>"

definition consul0 :: consul_server where
  "consul0 = \<lparr>acl_policies = [], acl_tokens = [], consul_fault = None, consul_ids = ids0,
     consul_issued = 0\<rparr>"

definition gitlab0 :: gitlab_server where
  "gitlab0 = \<lparr>gl_groups = [], gl_projects = [], gl_paths = [], gl_variables = [],
     gl_users = [(''alice'', 7)], gl_initial_branches = [], gl_requests = [],
     gl_fault = None, gl_next_id = 1000\<rparr>"

definition world0 :: world where
  "world0 = \<lparr>gitlab = gitlab0, vault = vault0, consul = consul0, stdout = []\<rparr>"

text \<open>
  A Consul server that already holds a policy named \<open>payments\<close> with other rules, and a
  token described \<open>payments\<close> that is bound to another policy.
\<close>

definition stale_policy :: acl_policy where
  "stale_policy = \<lparr>pol_ID = ''p-old'', pol_Name = ''payments'',
     pol_Rules = ''key_prefix '' @ dq @ ''legacy/'' @ dq @ '' { policy = '' @ dq @ ''read'' @ dq @ '' }''\<rparr>"

definition stale_token :: acl_token where
  "stale_token = \<lparr>tok_AccessorID = ''a-old'', tok_SecretID = ''s-old'',
     tok_Description = ''payments'', tok_Policies = [''p-other'']\<rparr>"

definition consul1 :: consul_server where
  "consul1 = consul0\<lparr>acl_policies := [stale_policy], acl_tokens := [stale_token]\<rparr>"

definition world3 :: world where
  "world3 = world0\<lparr>consul := consul1\<rparr>"

definition conf0 :: conf where
  "conf0 = \<lparr>CI_SUBGROUP_NAME = ''payments'', CI_PROJECT_NAME = ''svc'', CI_PROJECT_MODE = None,
     CI_PROJECT_MM_MODULE_NAME = None, CD_HELM_NAMESPACE = ''payments-ns'',
     CI_ACCESS_MAINTAINER = Some ''ghost'', CI_ACCESS_DEVELOPER = Some ''alice'',
     envBranches = [''dev'', ''prod''], CI_GITLAB_SERVER = ''https://gitlab.example'',
     CI_GITLAB_USERNAME = ''ci'', CI_GITLAB_PASSWORD = ''pw''\<rparr>"

definition gitlab1 :: gitlab_server where
  "gitlab1 = gitlab0\<lparr>
     gl_groups := [\<lparr>grp_id = 453, grp_path = ''code'', grp_parent = None\<rparr>,
                   \<lparr>grp_id = 452, grp_path = ''chart'', grp_parent = None\<rparr>,
                   \<lparr>grp_id = 500, grp_path = ''payments'', grp_parent = Some 453\<rparr>],
     gl_projects := [\<lparr>proj_id = 600, proj_name = ''svc'', proj_namespace = Some 500,
                      proj_branches = [], proj_protected = [], proj_members = []\<rparr>]\<rparr>"

definition world1 :: world where
  "world1 = world0\<lparr>gitlab := gitlab1\<rparr>"

definition world2 :: world where
  "world2 = world0\<lparr>gitlab := gitlab0\<lparr>gl_paths :=
       [(''devops/devops-project-provisioning'', 3502)]\<rparr>\<rparr>"

section \<open>Base64: decoding undoes encoding\<close>

lemma index_of_nth: "distinct xs \<Longrightarrow> n < length xs \<Longrightarrow> index_of (xs ! n) xs = n"
proof (induction xs arbitrary: n)
  case Nil then show ?case by simp
next
  case (Cons x xs)
  then show ?case by (cases n) auto
qed

lemma b64_alphabet_distinct: "distinct b64_alphabet"
  by (simp add: b64_alphabet_def)

lemma b64_alphabet_length: "length b64_alphabet = 64"
  by (simp add: b64_alphabet_def)

lemma b64_value_char: "b64_value (b64_char n) = n mod 64"
  by (simp add: b64_value_def b64_char_def index_of_nth b64_alphabet_distinct b64_alphabet_length)

lemma b64_char_not_pad: "b64_char n \<noteq> CHR ''=''"
proof -
  have "b64_char n \<in> set b64_alphabet"
    by (simp add: b64_char_def b64_alphabet_length)
  moreover have "CHR ''='' \<notin> set b64_alphabet"
    by (simp add: b64_alphabet_def)
  ultimately show ?thesis by metis
qed




lemma div_small: "r < m \<Longrightarrow> (q * m + r) div m = (q::nat)"
  by simp

lemma mod_small: "r < m \<Longrightarrow> (q * m + r) mod m = (r::nat)"
  by simp

lemma sextets_rebuild:
  fixes n :: nat
  assumes "n < 16777216"
  shows "(n div 262144) mod 64 * 262144 + (n div 4096) mod 64 * 4096 + (n div 64) mod 64 * 64 + n mod 64 = n"
proof -
  define s1 where "s1 = n div 262144"
  define d4 where "d4 = n div 4096"
  define d6 where "d6 = n div 64"
  define m4 where "m4 = d4 mod 64"
  define m6 where "m6 = d6 mod 64"
  define m where "m = n mod 64"
  have a: "s1 mod 64 = s1" using assms by (simp add: s1_def)
  have "s1 = d4 div 64" by (simp add: s1_def d4_def div_mult2_eq)
  then have b: "d4 = s1 * 64 + m4" by (simp add: m4_def)
  have "d4 = d6 div 64" by (simp add: d6_def d4_def div_mult2_eq)
  then have c: "d6 = d4 * 64 + m6" by (simp add: m6_def)
  have d: "n = d6 * 64 + m" by (simp add: d6_def m_def)
  have "s1 * 262144 + m4 * 4096 + m6 * 64 + m = n"
    using b c d by linarith
  then show ?thesis
    using a by (simp only: s1_def d4_def d6_def m4_def m6_def m_def)
qed

lemma group3:
  fixes a b c :: char
  defines "n \<equiv> (of_char a :: nat) * 65536 + of_char b * 256 + of_char c"
  shows "n < 16777216" "char_of (n div 65536) = a" "char_of (n div 256) = b" "char_of n = c"
proof -
  define x :: nat where "x = of_char a"
  define y :: nat where "y = of_char b"
  define z :: nat where "z = of_char c"
  have A: "x < 256" and B: "y < 256" and C: "z < 256"
    by (simp_all add: x_def y_def z_def)
  have n: "n = x * 65536 + y * 256 + z" by (simp add: n_def x_def y_def z_def)
  show "n < 16777216" using A B C unfolding n by linarith
  have r: "y * 256 + z < 65536" using B C by linarith
  have "n = x * 65536 + (y * 256 + z)" by (simp add: n)
  then have "n div 65536 = x" using div_small [OF r, of x] by simp
  then show "char_of (n div 65536) = a" by (simp add: x_def)
  have "n = (x * 256 + y) * 256 + z" by (simp add: n algebra_simps)
  then have "n div 256 = x * 256 + y" and nz: "n mod 256 = z"
    using div_small [OF C, of "x * 256 + y"] mod_small [OF C, of "x * 256 + y"] by simp_all
  then have "(n div 256) mod 256 = y" using mod_small [OF B, of x] by simp
  then show "char_of (n div 256) = b" by (simp add: char_of_eq_iff take_bit_eq_mod y_def)
  show "char_of n = c" using nz by (simp add: char_of_eq_iff take_bit_eq_mod z_def)
qed


lemma decode_group3:
  "b64decode (b64_char (n div 262144) # b64_char (n div 4096) # b64_char (n div 64) # b64_char n # rest)
     = (let k = (n div 262144) mod 64 * 262144 + (n div 4096) mod 64 * 4096 + (n div 64) mod 64 * 64 + n mod 64
        in [char_of (k div 65536), char_of (k div 256), char_of k] @ b64decode rest)"
  by (simp add: b64_value_char b64_char_not_pad Let_def)

lemma decode_group2:
  "b64decode (b64_char (n div 262144) # b64_char (n div 4096) # b64_char (n div 64) # CHR ''='' # rest)
     = (let k = (n div 262144) mod 64 * 262144 + (n div 4096) mod 64 * 4096 + (n div 64) mod 64 * 64
        in [char_of (k div 65536), char_of (k div 256)] @ b64decode rest)"
  by (simp add: b64_value_char b64_char_not_pad Let_def)

lemma decode_group1:
  "b64decode (b64_char (n div 262144) # b64_char (n div 4096) # CHR ''='' # CHR ''='' # rest)
     = (let k = (n div 262144) mod 64 * 262144 + (n div 4096) mod 64 * 4096
        in [char_of (k div 65536)] @ b64decode rest)"
  by (simp add: b64_value_char b64_char_not_pad Let_def)

lemma zero_char: "(of_char (CHR 0x00) :: nat) = 0"
  by simp

lemma b64_roundtrip: "b64decode (b64encode xs) = xs"
proof (induction xs rule: b64encode.induct)
  case 1
  show ?case by simp
next
  case (2 a)
  define n :: nat where "n = of_char a * 65536 + of_char (CHR 0x00) * 256 + of_char (CHR 0x00)"
  have n': "n = of_char a * 65536" by (simp add: n_def)
  have lt: "n < 16777216" unfolding n_def by (rule group3(1))
  have "n = (of_char a * 1024) * 64" by (simp add: n')
  then have m: "n mod 64 = 0" and d: "n div 64 = of_char a * 16 * 64" by simp_all
  have m6: "(n div 64) mod 64 = 0" unfolding d by simp
  have k: "(n div 262144) mod 64 * 262144 + (n div 4096) mod 64 * 4096 = n"
    using sextets_rebuild [OF lt] by (simp only: m m6 mult_zero_left add_0_right)
  have c: "char_of (n div 65536) = a" unfolding n_def by (rule group3(2))
  have e: "b64encode [a] = [b64_char (n div 262144), b64_char (n div 4096), CHR ''='', CHR ''='']"
    by (simp add: n' Let_def)
  have "b64decode (b64encode [a]) = [char_of (n div 65536)] @ b64decode []"
    unfolding e decode_group1 Let_def k ..
  then show ?case using c by simp
next
  case (3 a b)
  define n :: nat where "n = of_char a * 65536 + of_char b * 256 + of_char (CHR 0x00)"
  have n': "n = of_char a * 65536 + of_char b * 256" by (simp add: n_def)
  have lt: "n < 16777216" unfolding n_def by (rule group3(1))
  have "n = (of_char a * 1024 + of_char b * 4) * 64" by (simp add: n')
  then have m: "n mod 64 = 0" by simp
  have k: "(n div 262144) mod 64 * 262144 + (n div 4096) mod 64 * 4096 + (n div 64) mod 64 * 64 = n"
    using sextets_rebuild [OF lt] by (simp only: m add_0_right)
  have c: "char_of (n div 65536) = a" "char_of (n div 256) = b"
    unfolding n_def by (rule group3(2), rule group3(3))
  have e: "b64encode [a, b] =
      [b64_char (n div 262144), b64_char (n div 4096), b64_char (n div 64), CHR ''='']"
    by (simp add: n' Let_def)
  have "b64decode (b64encode [a, b]) = [char_of (n div 65536), char_of (n div 256)] @ b64decode []"
    unfolding e decode_group2 Let_def k ..
  then show ?case using c by simp
next
  case (4 a b c rest)
  define n :: nat where "n = of_char a * 65536 + of_char b * 256 + of_char c"
  have lt: "n < 16777216" unfolding n_def by (rule group3(1))
  have k: "(n div 262144) mod 64 * 262144 + (n div 4096) mod 64 * 4096 + (n div 64) mod 64 * 64 + n mod 64 = n"
    by (rule sextets_rebuild [OF lt])
  have c: "char_of (n div 65536) = a" "char_of (n div 256) = b" "char_of n = c"
    unfolding n_def by (rule group3(2), rule group3(3), rule group3(4))
  have e: "b64encode (a # b # c # rest) =
      b64_char (n div 262144) # b64_char (n div 4096) # b64_char (n div 64) # b64_char n # b64encode rest"
    by (simp add: n_def Let_def)
  have "b64decode (b64encode (a # b # c # rest)) =
      [char_of (n div 65536), char_of (n div 256), char_of n] @ b64decode (b64encode rest)"
    unfolding e decode_group3 Let_def k ..
  then show ?case using c "4.IH" by simp
qed

lemma div3_step: "(Suc (Suc (Suc n)) + 2) div 3 = Suc ((n + 2) div 3)"
  by presburger

lemma b64encode_length: "length (b64encode xs) = 4 * ((length xs + 2) div 3)"
proof (induction xs rule: b64encode.induct)
  case (4 a b c rest)
  have "length (b64encode (a # b # c # rest)) = 4 + length (b64encode rest)"
    by (simp add: Let_def)
  also have "\<dots> = 4 * Suc ((length rest + 2) div 3)"
    using "4.IH" by simp
  also have "\<dots> = 4 * ((length (a # b # c # rest) + 2) div 3)"
    using div3_step [of "length rest"] by simp
  finally show ?case .
qed (simp_all add: Let_def)

lemma b64encode_neq: "xs \<noteq> [] \<Longrightarrow> b64encode xs \<noteq> xs"
proof
  assume ne: "xs \<noteq> []" and eq: "b64encode xs = xs"
  have "length (b64encode xs) = 4 * ((length xs + 2) div 3)" by (rule b64encode_length)
  then have "length xs = 4 * ((length xs + 2) div 3)" using eq by simp
  moreover have "0 < length xs" using ne by simp
  ultimately show False by linarith
qed


section \<open>Sequencing\<close>

lemma bind_Inr: "m w = (Inr a, w') \<Longrightarrow> bind m f w = f a w'"
  by (simp add: bind_def)

lemma bind_Inl: "m w = (Inl e, w') \<Longrightarrow> bind m f w = (Inl e, w')"
  by (simp add: bind_def)

section \<open>Properties of the Vault client\<close>

lemma vault_request_ok:
  "vault_fault (vault w) = None \<Longrightarrow>
   vault_request f w = (fst (f (vault w)), w\<lparr>vault := snd (f (vault w))\<rparr>)"
  by (simp add: vault_request_def split: prod.splits)

lemma vault_request_fault:
  "vault_fault (vault w) = Some msg \<Longrightarrow> vault_request f w = (Inl (VaultError msg), w)"
  by (simp add: vault_request_def)

lemma write_secret_ok:
  assumes "vault_fault (vault w) = None"
  shows "write_secret_to_vault mp p k v w =
    (Inr (),
     w\<lparr>vault := (vault w)\<lparr>kv_v1 := (kv_v1 (vault w))((mp, p) \<mapsto> (existing_secret w mp p)(k \<mapsto> v))\<rparr>,
       stdout := stdout w @
         (case kv_v1 (vault w) (mp, p) of
            None \<Rightarrow> [''No existing data found, initializing new secret.'']
          | Some _ \<Rightarrow> []) @
         [''Secret written/appended to '' @ mp @ ''/'' @ p @ '' successfully.'']\<rparr>)"
  using assms
  by (cases "kv_v1 (vault w) (mp, p)")
     (simp_all add: write_secret_to_vault_def bind_def try_except_def hvac_read_secret_def
        hvac_create_or_update_secret_def vault_request_ok print_def ret_def existing_secret_def)

lemma create_or_get_role_new:
  assumes "vault_fault (vault w) = None" "approles (vault w) r = None"
  shows "VaultManager_create_or_get_role_id r p w =
    (Inr (vault_ids (vault w) (vault_issued (vault w))),
     w\<lparr>stdout := stdout w @ [''Vault Role does not exist, creating a new one...''],
       vault := (vault w)\<lparr>approles := (approles (vault w))(r \<mapsto>
           \<lparr>ar_role_id = vault_ids (vault w) (vault_issued (vault w)),
            ar_token_policies = [p], ar_token_type = ''service''\<rparr>),
         vault_issued := Suc (vault_issued (vault w))\<rparr>\<rparr>)"
  using assms
  by (simp add: VaultManager_create_or_get_role_id_def bind_def try_except_def hvac_read_role_id_def
        hvac_create_or_update_approle_def vault_request_ok print_def)

lemma create_or_get_role_existing:
  assumes "vault_fault (vault w) = None" "approles (vault w) r = Some a"
  shows "VaultManager_create_or_get_role_id r p w = (Inr (ar_role_id a), w)"
  using assms
  by (simp add: VaultManager_create_or_get_role_id_def try_except_def hvac_read_role_id_def
        vault_request_ok)

lemma create_or_get_role_fault:
  assumes "vault_fault (vault w) = Some msg"
  shows "VaultManager_create_or_get_role_id r p w = (Inl (VaultError msg), w)"
  using assms
  by (simp add: VaultManager_create_or_get_role_id_def try_except_def hvac_read_role_id_def
        vault_request_fault)

lemma vault_create_policy_ok:
  assumes "vault_fault (vault w) = None"
  shows "VaultManager_create_policy n b w =
     (Inr (), w\<lparr>vault := (vault w)\<lparr>sys_policies := (sys_policies (vault w))(n \<mapsto> b)\<rparr>\<rparr>)"
  using assms
  by (simp add: VaultManager_create_policy_def try_except_def hvac_create_or_update_policy_def
        vault_request_ok)

lemma vault_create_policy_fault:
  assumes "vault_fault (vault w) = Some msg"
  shows "VaultManager_create_policy n b w =
     (Inr (), w\<lparr>stdout := stdout w @ [''Error creating policy: '' @ msg]\<rparr>)"
  using assms
  by (simp add: VaultManager_create_policy_def try_except_def hvac_create_or_update_policy_def
        vault_request_fault print_def)



lemma generate_secret_id_and_login_ok:
  assumes "vault_fault (vault w) = None" "approles (vault w) rn = Some a" "ar_role_id a = rid"
  shows "VaultManager_generate_secret_id_and_login rn rid w =
           (Inr (vault_ids (vault w) (vault_issued (vault w)),
                 vault_ids (vault w) (Suc (vault_issued (vault w)))),
            w\<lparr>vault := (vault w)\<lparr>
                  secret_ids := secret_ids (vault w) @ [(rn, vault_ids (vault w) (vault_issued (vault w)))],
                  vault_issued := Suc (Suc (vault_issued (vault w))),
                  client_tokens := client_tokens (vault w) @ [vault_ids (vault w) (Suc (vault_issued (vault w)))]\<rparr>,
              stdout := stdout w @ [''Vault Client Token: '' @ vault_ids (vault w) (Suc (vault_issued (vault w)))]\<rparr>)"
  using assms
  by (simp add: VaultManager_generate_secret_id_and_login_def bind_def hvac_generate_secret_id_def
        hvac_login_def vault_request_ok print_def ret_def)

lemma generate_vault_secret_ok:
  assumes "vault_fault (vault w) = None"
  shows "fst (generate_vault_secret L g env ns w) =
     Inr (generate_vault_k8s_secret L g ns
       (b64encode (case approles (vault w) (g @ ''_'' @ env @ ''_role'') of
                     Some a \<Rightarrow> ar_role_id a
                   | None \<Rightarrow> vault_ids (vault w) (vault_issued (vault w))))
       (b64encode (case approles (vault w) (g @ ''_'' @ env @ ''_role'') of
                     Some a \<Rightarrow> vault_ids (vault w) (vault_issued (vault w))
                   | None \<Rightarrow> vault_ids (vault w) (Suc (vault_issued (vault w))))))"
proof (cases "approles (vault w) (g @ ''_'' @ env @ ''_role'')")
  case None
  show ?thesis
    using assms None
    by (simp add: generate_vault_secret_def Let_def bind_def vault_create_policy_ok
          create_or_get_role_new generate_secret_id_and_login_ok ret_def)
next
  case (Some a)
  show ?thesis
    using assms Some
    by (simp add: generate_vault_secret_def Let_def bind_def vault_create_policy_ok
          create_or_get_role_existing generate_secret_id_and_login_ok ret_def)
qed


text \<open>
  C5. \<open>write_secret_to_vault\<close> reads, merges and writes: starting from the map stored at
  the path (the empty map when the read raises the path-not-found signal), writing key
  \<open>k\<close> with value \<open>v\<close> stores that map with \<open>k\<close> bound to \<open>v\<close> and every other key
  unchanged. Writing key \<open>a\<close> and then key \<open>b\<close> leaves both in the map, and writing
  \<open>a\<close> twice leaves the latest value of \<open>a\<close>.
\<close>

theorem write_secret_to_vault_read_merge_write:
  assumes "vault_fault (vault w) = None"
  shows "fst (write_secret_to_vault mp p k v w) = Inr ()
    \<and> kv_v1 (vault (snd (write_secret_to_vault mp p k v w)))
        = (kv_v1 (vault w))((mp, p) \<mapsto> (existing_secret w mp p)(k \<mapsto> v))
    \<and> kv_v1 (vault (snd (write_secret_to_vault mp p b vb
          (snd (write_secret_to_vault mp p a va w))))) (mp, p)
        = Some ((existing_secret w mp p)(a \<mapsto> va, b \<mapsto> vb))
    \<and> kv_v1 (vault (snd (write_secret_to_vault mp p a v2
          (snd (write_secret_to_vault mp p a v1 w))))) (mp, p)
        = Some ((existing_secret w mp p)(a \<mapsto> v2))"
proof -
  have one: "\<And>k v. write_secret_to_vault mp p k v w =
      (Inr (), w\<lparr>vault := (vault w)\<lparr>kv_v1 :=
           (kv_v1 (vault w))((mp, p) \<mapsto> (existing_secret w mp p)(k \<mapsto> v))\<rparr>,
         stdout := stdout w @
           (case kv_v1 (vault w) (mp, p) of
              None \<Rightarrow> [''No existing data found, initializing new secret.'']
            | Some _ \<Rightarrow> []) @
           [''Secret written/appended to '' @ mp @ ''/'' @ p @ '' successfully.'']\<rparr>)"
    by (rule write_secret_ok [OF assms])
  have two: "\<And>k v k' v'.
      kv_v1 (vault (snd (write_secret_to_vault mp p k' v' (snd (write_secret_to_vault mp p k v w)))))
        (mp, p) = Some ((existing_secret w mp p)(k \<mapsto> v, k' \<mapsto> v'))"
  proof -
    fix k v k' v'
    let ?w1 = "snd (write_secret_to_vault mp p k v w)"
    have f1: "vault_fault (vault ?w1) = None"
      using assms by (simp add: one)
    have e1: "existing_secret ?w1 mp p = (existing_secret w mp p)(k \<mapsto> v)"
      by (simp add: one existing_secret_def)
    show "kv_v1 (vault (snd (write_secret_to_vault mp p k' v' ?w1))) (mp, p)
        = Some ((existing_secret w mp p)(k \<mapsto> v, k' \<mapsto> v'))"
      by (simp add: write_secret_ok [OF f1] e1)
  qed
  have first: "fst (write_secret_to_vault mp p k v w) = Inr ()"
    by (simp add: one)
  have stored: "kv_v1 (vault (snd (write_secret_to_vault mp p k v w)))
        = (kv_v1 (vault w))((mp, p) \<mapsto> (existing_secret w mp p)(k \<mapsto> v))"
    by (simp add: one)
  have twice: "kv_v1 (vault (snd (write_secret_to_vault mp p a v2
          (snd (write_secret_to_vault mp p a v1 w))))) (mp, p)
        = Some ((existing_secret w mp p)(a \<mapsto> v2))"
    using two [of a v2 a v1] by simp
  show ?thesis
    using first stored two [of b vb a va] twice by blast
qed

theorem write_secret_to_vault_read_merge_write_witness:
  "vault_fault (vault world0) = None
   \<and> kv_v1 (vault (snd (write_secret_to_vault ''devops_kv'' ''dev/kubernetes/namespace'' ''B'' ''2''
        (snd (write_secret_to_vault ''devops_kv'' ''dev/kubernetes/namespace'' ''A'' ''1'' world0)))))
        (''devops_kv'', ''dev/kubernetes/namespace'')
      = Some [''A'' \<mapsto> ''1'', ''B'' \<mapsto> ''2'']
   \<and> kv_v1 (vault (snd (write_secret_to_vault ''devops_kv'' ''dev/kubernetes/namespace'' ''A'' ''2''
        (snd (write_secret_to_vault ''devops_kv'' ''dev/kubernetes/namespace'' ''A'' ''1'' world0)))))
        (''devops_kv'', ''dev/kubernetes/namespace'')
      = Some [''A'' \<mapsto> ''2'']"
proof -
  have h: "vault_fault (vault world0) = None"
    by (simp add: world0_def vault0_def)
  have e: "existing_secret world0 ''devops_kv'' ''dev/kubernetes/namespace'' = Map.empty"
    by (simp add: existing_secret_def world0_def vault0_def)
  show ?thesis
    using h e
      write_secret_to_vault_read_merge_write [OF h, where mp = "''devops_kv''"
        and p = "''dev/kubernetes/namespace''" and a = "''A''" and va = "''1''"
        and b = "''B''" and vb = "''2''" and ?v1.0 = "''1''" and ?v2.0 = "''2''"]
    by simp
qed

text \<open>
  C6. \<open>_create_or_get_role_id\<close> is idempotent. When the lookup raises the path-not-found
  signal (the role is not there) it creates the role bound to the given policy and returns
  its id; a second call with the same role name returns the same id and leaves the server
  and the output as they are, so no second role is made; a role that is there is returned
  without any change; a lookup failure other than path-not-found comes out of the function
  as it is.
\<close>

theorem create_or_get_role_id_idempotent:
  "(vault_fault (vault w) = None \<and> approles (vault w) r = None \<longrightarrow>
      fst (VaultManager_create_or_get_role_id r p w)
        = Inr (vault_ids (vault w) (vault_issued (vault w)))
      \<and> approles (vault (snd (VaultManager_create_or_get_role_id r p w)))
        = (approles (vault w))(r \<mapsto>
            \<lparr>ar_role_id = vault_ids (vault w) (vault_issued (vault w)),
             ar_token_policies = [p], ar_token_type = ''service''\<rparr>)
      \<and> VaultManager_create_or_get_role_id r p' (snd (VaultManager_create_or_get_role_id r p w))
        = (Inr (vault_ids (vault w) (vault_issued (vault w))),
           snd (VaultManager_create_or_get_role_id r p w)))
   \<and> (vault_fault (vault w) = None \<and> approles (vault w) r = Some a \<longrightarrow>
        VaultManager_create_or_get_role_id r p w = (Inr (ar_role_id a), w))
   \<and> (vault_fault (vault w) = Some msg \<longrightarrow>
        VaultManager_create_or_get_role_id r p w = (Inl (VaultError msg), w))"
proof (intro conjI impI)
  assume h: "vault_fault (vault w) = None \<and> approles (vault w) r = None"
  then have ok: "vault_fault (vault w) = None" and new: "approles (vault w) r = None"
    by simp_all
  note first = create_or_get_role_new [OF ok new, of p]
  show "fst (VaultManager_create_or_get_role_id r p w)
        = Inr (vault_ids (vault w) (vault_issued (vault w)))"
    by (simp add: first)
  show "approles (vault (snd (VaultManager_create_or_get_role_id r p w)))
        = (approles (vault w))(r \<mapsto>
            \<lparr>ar_role_id = vault_ids (vault w) (vault_issued (vault w)),
             ar_token_policies = [p], ar_token_type = ''service''\<rparr>)"
    by (simp add: first)
  let ?w1 = "snd (VaultManager_create_or_get_role_id r p w)"
  have ok1: "vault_fault (vault ?w1) = None"
    using ok by (simp add: first)
  have there: "approles (vault ?w1) r =
      Some \<lparr>ar_role_id = vault_ids (vault w) (vault_issued (vault w)),
            ar_token_policies = [p], ar_token_type = ''service''\<rparr>"
    by (simp add: first)
  show "VaultManager_create_or_get_role_id r p' ?w1
        = (Inr (vault_ids (vault w) (vault_issued (vault w))), ?w1)"
    using create_or_get_role_existing [OF ok1 there, of p'] by simp
next
  assume "vault_fault (vault w) = None \<and> approles (vault w) r = Some a"
  then show "VaultManager_create_or_get_role_id r p w = (Inr (ar_role_id a), w)"
    by (simp add: create_or_get_role_existing)
next
  assume "vault_fault (vault w) = Some msg"
  then show "VaultManager_create_or_get_role_id r p w = (Inl (VaultError msg), w)"
    by (rule create_or_get_role_fault)
qed

theorem create_or_get_role_id_idempotent_witness:
  "vault_fault (vault world0) = None \<and> approles (vault world0) ''payments_dev_role'' = None
   \<and> fst (VaultManager_create_or_get_role_id ''payments_dev_role'' ''payments_dev_policy'' world0)
       = Inr ''id-''
   \<and> fst (VaultManager_create_or_get_role_id ''payments_dev_role'' ''other_policy''
        (snd (VaultManager_create_or_get_role_id ''payments_dev_role'' ''payments_dev_policy''
           world0))) = Inr ''id-''
   \<and> vault_issued (vault (snd (VaultManager_create_or_get_role_id ''payments_dev_role''
        ''other_policy''
        (snd (VaultManager_create_or_get_role_id ''payments_dev_role'' ''payments_dev_policy''
           world0))))) = 1
   \<and> VaultManager_create_or_get_role_id ''payments_dev_role'' ''payments_dev_policy''
        (world0\<lparr>vault := vault0\<lparr>vault_fault := Some ''permission denied''\<rparr>\<rparr>)
       = (Inl (VaultError ''permission denied''),
          world0\<lparr>vault := vault0\<lparr>vault_fault := Some ''permission denied''\<rparr>\<rparr>)"
proof -
  have h: "vault_fault (vault world0) = None \<and> approles (vault world0) ''payments_dev_role'' = None"
    by (simp add: world0_def vault0_def)
  have i: "vault_ids (vault world0) (vault_issued (vault world0)) = ''id-''"
    by (simp add: world0_def vault0_def ids0_def)
  have n: "vault_issued (vault (snd (VaultManager_create_or_get_role_id ''payments_dev_role''
        ''payments_dev_policy'' world0))) = 1"
    using h by (simp add: create_or_get_role_new world0_def vault0_def)
  have f: "vault_fault (vault (world0\<lparr>vault := vault0\<lparr>vault_fault := Some ''permission denied''\<rparr>\<rparr>))
      = Some ''permission denied''"
    by simp
  show ?thesis
    using h i n f
      create_or_get_role_id_idempotent [where w = world0 and r = "''payments_dev_role''"
        and p = "''payments_dev_policy''" and p' = "''other_policy''"]
      create_or_get_role_id_idempotent [where r = "''payments_dev_role''"
        and w = "world0\<lparr>vault := vault0\<lparr>vault_fault := Some ''permission denied''\<rparr>\<rparr>"
        and p = "''payments_dev_policy''" and msg = "''permission denied''"]
    by simp
qed

text \<open>
  C10. The Secret manifest that \<open>generate_vault_secret\<close> returns carries
  \<open>VAULT_ROLE_ID = b64encode (b64encode role_id)\<close> and
  \<open>VAULT_SECRET_ID = b64encode (b64encode secret_id)\<close>: the ids are encoded before they
  are passed to \<open>generate_vault_k8s_secret\<close>, which encodes its arguments again. One
  base64 decoding of a field gives the encoded id, which differs from the id itself
  whenever the id is not empty. The role id is the one of the role that is stored, or
  the next id the server issues; the secret id is the one issued after it.
\<close>

theorem generate_vault_secret_double_base64:
  "(vault_fault (vault w) = None \<longrightarrow>
      fst (generate_vault_secret L g env ns w) =
        Inr (yaml_dump L (vault_secret_doc g ns
          (b64encode (case approles (vault w) (g @ ''_'' @ env @ ''_role'') of
                        Some a \<Rightarrow> ar_role_id a
                      | None \<Rightarrow> vault_ids (vault w) (vault_issued (vault w))))
          (b64encode (case approles (vault w) (g @ ''_'' @ env @ ''_role'') of
                        Some a \<Rightarrow> vault_ids (vault w) (vault_issued (vault w))
                      | None \<Rightarrow> vault_ids (vault w) (Suc (vault_issued (vault w))))))))
   \<and> doc_get ''data'' (vault_secret_doc g ns (b64encode role_id) (b64encode secret_id))
       = Some (DDict [(''VAULT_ROLE_ID'', DStr (b64encode (b64encode role_id))),
                      (''VAULT_SECRET_ID'', DStr (b64encode (b64encode secret_id)))])
   \<and> b64decode (b64encode (b64encode role_id)) = b64encode role_id
   \<and> b64decode (b64encode (b64encode secret_id)) = b64encode secret_id
   \<and> (role_id \<noteq> [] \<longrightarrow> b64decode (b64encode (b64encode role_id)) \<noteq> role_id)
   \<and> (secret_id \<noteq> [] \<longrightarrow> b64decode (b64encode (b64encode secret_id)) \<noteq> secret_id)"
proof (intro conjI impI)
  assume "vault_fault (vault w) = None"
  then show "fst (generate_vault_secret L g env ns w) =
        Inr (yaml_dump L (vault_secret_doc g ns
          (b64encode (case approles (vault w) (g @ ''_'' @ env @ ''_role'') of
                        Some a \<Rightarrow> ar_role_id a
                      | None \<Rightarrow> vault_ids (vault w) (vault_issued (vault w))))
          (b64encode (case approles (vault w) (g @ ''_'' @ env @ ''_role'') of
                        Some a \<Rightarrow> vault_ids (vault w) (vault_issued (vault w))
                      | None \<Rightarrow> vault_ids (vault w) (Suc (vault_issued (vault w)))))))"
    using generate_vault_secret_ok [of w L g env ns]
    by (simp only: generate_vault_k8s_secret_def)
next
  show "doc_get ''data'' (vault_secret_doc g ns (b64encode role_id) (b64encode secret_id))
       = Some (DDict [(''VAULT_ROLE_ID'', DStr (b64encode (b64encode role_id))),
                      (''VAULT_SECRET_ID'', DStr (b64encode (b64encode secret_id)))])"
    by (simp add: vault_secret_doc_def Let_def)
next
  show "b64decode (b64encode (b64encode role_id)) = b64encode role_id"
    by (rule b64_roundtrip)
next
  show "b64decode (b64encode (b64encode secret_id)) = b64encode secret_id"
    by (rule b64_roundtrip)
next
  assume "role_id \<noteq> []"
  then show "b64decode (b64encode (b64encode role_id)) \<noteq> role_id"
    by (simp add: b64_roundtrip b64encode_neq)
next
  assume "secret_id \<noteq> []"
  then show "b64decode (b64encode (b64encode secret_id)) \<noteq> secret_id"
    by (simp add: b64_roundtrip b64encode_neq)
qed

theorem generate_vault_secret_double_base64_witness:
  "vault_fault (vault world0) = None
   \<and> fst (generate_vault_secret serial0 ''payments'' ''dev'' ''payments-ns'' world0)
       = Inr (show_doc (vault_secret_doc ''payments'' ''payments-ns'' ''aWQt'' ''aWQteA==''))
   \<and> doc_get ''data'' (vault_secret_doc ''payments'' ''payments-ns'' ''aWQt'' ''aWQteA=='')
       = Some (DDict [(''VAULT_ROLE_ID'', DStr ''YVdRdA==''),
                      (''VAULT_SECRET_ID'', DStr ''YVdRdGVBPT0='')])
   \<and> b64decode ''YVdRdA=='' = ''aWQt'' \<and> b64decode ''YVdRdA=='' \<noteq> ''id-''"
proof -
  have h: "vault_fault (vault world0) = None"
    by (simp add: world0_def vault0_def)
  have r: "approles (vault world0) (''payments'' @ ''_'' @ ''dev'' @ ''_role'') = None"
    by (simp add: world0_def vault0_def)
  have e: "b64encode ''id-'' = ''aWQt''" "b64encode ''id-x'' = ''aWQteA==''"
    "b64encode ''aWQt'' = ''YVdRdA==''" "b64encode ''aWQteA=='' = ''YVdRdGVBPT0=''"
    by (simp_all add: b64_char_def b64_alphabet_def)
  have i: "vault_ids (vault world0) (vault_issued (vault world0)) = ''id-''"
    "vault_ids (vault world0) (Suc (vault_issued (vault world0))) = ''id-x''"
    by (simp_all add: world0_def vault0_def ids0_def)
  have y: "yaml_dump serial0 = show_doc"
    by (simp add: serial0_def)
  have ne: "''id-'' \<noteq> ([]::string)"
    by simp
  show ?thesis
    using generate_vault_secret_double_base64 [where w = world0 and L = serial0
        and g = "''payments''" and env = "''dev''" and ns = "''payments-ns''"
        and role_id = "''id-''" and secret_id = "''id-x''"]
    by (simp only: h r i y e ne option.case simp_thms) simp
qed

section \<open>Properties of the Consul client\<close>


lemma consul_request_ok:
  "consul_fault (consul w) = None \<Longrightarrow>
   consul_request f w = (Inr (fst (f (consul w))), w\<lparr>consul := snd (f (consul w))\<rparr>)"
  by (simp add: consul_request_def split: prod.splits)

lemma consul_request_fault:
  "consul_fault (consul w) = Some msg \<Longrightarrow> consul_request f w = (Inl (HTTPError msg), w)"
  by (simp add: consul_request_def)

lemma world_consul_same: "w\<lparr>consul := consul w\<rparr> = w"
  by simp

lemma consul_create_policy_existing:
  assumes "consul_fault (consul w) = None"
    "find (\<lambda>p. pol_Name p = n) (acl_policies (consul w)) = Some q"
  shows "ConsulManager_create_policy n b w = (Inr q, w)"
  using assms
  by (simp add: ConsulManager_create_policy_def ConsulManager_get_policy_def get_acl_policies_def
        bind_def ret_def consul_request_ok)

lemma consul_create_policy_new:
  assumes "consul_fault (consul w) = None"
    "find (\<lambda>p. pol_Name p = n) (acl_policies (consul w)) = None"
  shows "ConsulManager_create_policy n b w =
    (Inr \<lparr>pol_ID = consul_ids (consul w) (consul_issued (consul w)), pol_Name = n, pol_Rules = b\<rparr>,
     w\<lparr>consul := (consul w)\<lparr>acl_policies := acl_policies (consul w) @
           [\<lparr>pol_ID = consul_ids (consul w) (consul_issued (consul w)), pol_Name = n, pol_Rules = b\<rparr>],
         consul_issued := Suc (consul_issued (consul w))\<rparr>\<rparr>)"
  using assms
  by (simp add: ConsulManager_create_policy_def ConsulManager_get_policy_def get_acl_policies_def
        put_acl_policy_def bind_def ret_def consul_request_ok Let_def)

lemma consul_create_policy_fault:
  assumes "consul_fault (consul w) = Some msg"
  shows "ConsulManager_create_policy n b w = (Inl (HTTPError msg), w)"
  using assms
  by (simp add: ConsulManager_create_policy_def ConsulManager_get_policy_def get_acl_policies_def
        bind_def consul_request_fault)

lemma consul_create_token_existing:
  assumes "consul_fault (consul w) = None"
    "find (\<lambda>t. tok_Description t = d) (acl_tokens (consul w)) = Some t"
  shows "ConsulManager_create_token ps d w =
     (Inr t, w\<lparr>stdout := stdout w @ [''Token with description '' @ sq @ d @ sq @ '' already exists.'']\<rparr>)"
  using assms
  by (simp add: ConsulManager_create_token_def ConsulManager_token_exists_def
        ConsulManager_get_tokens_def get_acl_tokens_def bind_def ret_def print_def consul_request_ok)

lemma consul_create_token_new:
  assumes "consul_fault (consul w) = None"
    "find (\<lambda>t. tok_Description t = d) (acl_tokens (consul w)) = None"
  shows "ConsulManager_create_token (Some ps) d w =
    (Inr \<lparr>tok_AccessorID = consul_ids (consul w) (consul_issued (consul w)),
          tok_SecretID = consul_ids (consul w) (Suc (consul_issued (consul w))),
          tok_Description = d, tok_Policies = ps\<rparr>,
     w\<lparr>consul := (consul w)\<lparr>acl_tokens := acl_tokens (consul w) @
           [\<lparr>tok_AccessorID = consul_ids (consul w) (consul_issued (consul w)),
             tok_SecretID = consul_ids (consul w) (Suc (consul_issued (consul w))),
             tok_Description = d, tok_Policies = ps\<rparr>],
         consul_issued := Suc (Suc (consul_issued (consul w)))\<rparr>\<rparr>)"
  using assms
  by (simp add: ConsulManager_create_token_def ConsulManager_token_exists_def
        ConsulManager_get_tokens_def get_acl_tokens_def put_acl_token_def bind_def ret_def
        consul_request_ok Let_def)

lemma find_append_new:
  "find P xs = None \<Longrightarrow> P x \<Longrightarrow> find P (xs @ [x]) = Some x"
  by (induction xs) (auto split: if_splits)

lemma filter_find_None: "find P xs = None \<Longrightarrow> filter P xs = []"
  by (induction xs) (auto split: if_splits)



lemma generate_consul_secret_run:
  fixes w :: world and g ns :: string and L :: serializers
  assumes ok: "consul_fault (consul w) = None"
  defines "c \<equiv> consul w"
  defines "found \<equiv> find (\<lambda>p. pol_Name p = g) (acl_policies c)"
  defines "pol \<equiv> (case found of Some p \<Rightarrow> p
      | None \<Rightarrow> \<lparr>pol_ID = consul_ids c (consul_issued c), pol_Name = g,
           pol_Rules = ''key_prefix '' @ dq @ g @ ''/'' @ dq @ '' { policy = '' @ dq @ ''write'' @ dq @ '' }''\<rparr>)"
  defines "k \<equiv> (case found of Some p \<Rightarrow> consul_issued c | None \<Rightarrow> Suc (consul_issued c))"
  defines "held \<equiv> find (\<lambda>t. tok_Description t = g) (acl_tokens c)"
  defines "tok \<equiv> (case held of Some t \<Rightarrow> t
      | None \<Rightarrow> \<lparr>tok_AccessorID = consul_ids c k, tok_SecretID = consul_ids c (Suc k),
           tok_Description = g, tok_Policies = [pol_ID pol]\<rparr>)"
  shows "fst (generate_consul_secret L g ns w)
        = Inr (yaml_dump L (consul_secret_doc g ns (tok_SecretID tok)))"
    and "acl_policies (consul (snd (generate_consul_secret L g ns w)))
        = (case found of Some p \<Rightarrow> acl_policies c | None \<Rightarrow> acl_policies c @ [pol])"
    and "acl_tokens (consul (snd (generate_consul_secret L g ns w)))
        = (case held of Some t \<Rightarrow> acl_tokens c | None \<Rightarrow> acl_tokens c @ [tok])"
proof -
  define rule where "rule = ''key_prefix '' @ dq @ g @ ''/'' @ dq
      @ '' { policy = '' @ dq @ ''write'' @ dq @ '' }''"
  define w1 where "w1 = snd (ConsulManager_create_policy g rule w)"
  have step1: "ConsulManager_create_policy g rule w = (Inr pol, w1)
      \<and> consul_fault (consul w1) = None
      \<and> acl_policies (consul w1)
          = (case found of Some p \<Rightarrow> acl_policies c | None \<Rightarrow> acl_policies c @ [pol])
      \<and> acl_tokens (consul w1) = acl_tokens c
      \<and> consul_ids (consul w1) = consul_ids c
      \<and> consul_issued (consul w1) = k"
  proof (cases found)
    case None
    then have "find (\<lambda>p. pol_Name p = g) (acl_policies (consul w)) = None"
      by (simp add: found_def c_def)
    from consul_create_policy_new [OF ok this, of rule] show ?thesis
      using ok None by (simp add: w1_def pol_def k_def c_def rule_def)
  next
    case (Some q)
    then have "find (\<lambda>p. pol_Name p = g) (acl_policies (consul w)) = Some q"
      by (simp add: found_def c_def)
    from consul_create_policy_existing [OF ok this, of rule] show ?thesis
      using ok Some by (simp add: w1_def pol_def k_def c_def)
  qed
  then have p1: "ConsulManager_create_policy g rule w = (Inr pol, w1)"
    and ok1: "consul_fault (consul w1) = None"
    and pols1: "acl_policies (consul w1)
        = (case found of Some p \<Rightarrow> acl_policies c | None \<Rightarrow> acl_policies c @ [pol])"
    and toks1: "acl_tokens (consul w1) = acl_tokens c"
    and ids1: "consul_ids (consul w1) = consul_ids c"
    and k1: "consul_issued (consul w1) = k"
    by simp_all
  define w2 where "w2 = snd (ConsulManager_create_token (Some [pol_ID pol]) g w1)"
  have step2: "ConsulManager_create_token (Some [pol_ID pol]) g w1 = (Inr tok, w2)
      \<and> acl_policies (consul w2) = acl_policies (consul w1)
      \<and> acl_tokens (consul w2)
          = (case held of Some t \<Rightarrow> acl_tokens c | None \<Rightarrow> acl_tokens c @ [tok])"
  proof (cases held)
    case None
    then have "find (\<lambda>t. tok_Description t = g) (acl_tokens (consul w1)) = None"
      by (simp add: held_def toks1)
    from consul_create_token_new [OF ok1 this, of "[pol_ID pol]"] show ?thesis
      using None by (simp add: w2_def tok_def ids1 k1 toks1)
  next
    case (Some t)
    then have "find (\<lambda>t. tok_Description t = g) (acl_tokens (consul w1)) = Some t"
      by (simp add: held_def toks1)
    from consul_create_token_existing [OF ok1 this, of "Some [pol_ID pol]"] show ?thesis
      using Some by (simp add: w2_def tok_def toks1)
  qed
  then have p2: "ConsulManager_create_token (Some [pol_ID pol]) g w1 = (Inr tok, w2)"
    and pols2: "acl_policies (consul w2) = acl_policies (consul w1)"
    and toks2: "acl_tokens (consul w2)
        = (case held of Some t \<Rightarrow> acl_tokens c | None \<Rightarrow> acl_tokens c @ [tok])"
    by simp_all
  have run: "generate_consul_secret L g ns w =
     (Inr (generate_consul_k8s_secret L g ns (tok_SecretID tok)),
      w2\<lparr>stdout := stdout w2 @ [''-------------------------------'',
            ''Consul Client Token: '' @ tok_SecretID tok]\<rparr>)"
  proof -
    have b1: "\<And>f. bind (ConsulManager_create_policy g rule) f w = f pol w1"
      using p1 by (simp add: bind_def)
    have b2: "\<And>f. bind (ConsulManager_create_token (Some [pol_ID pol]) g) f w1 = f tok w2"
      using p2 by (simp add: bind_def)
    show ?thesis
      unfolding generate_consul_secret_def Let_def rule_def [symmetric] b1 b2
      by (simp add: bind_def print_def ret_def)
  qed
  show "fst (generate_consul_secret L g ns w)
        = Inr (yaml_dump L (consul_secret_doc g ns (tok_SecretID tok)))"
    by (simp add: run generate_consul_k8s_secret_def)
  show "acl_policies (consul (snd (generate_consul_secret L g ns w)))
        = (case found of Some p \<Rightarrow> acl_policies c | None \<Rightarrow> acl_policies c @ [pol])"
    by (simp add: run pols2 pols1)
  show "acl_tokens (consul (snd (generate_consul_secret L g ns w)))
        = (case held of Some t \<Rightarrow> acl_tokens c | None \<Rightarrow> acl_tokens c @ [tok])"
    by (simp add: run toks2)
qed


lemma find_SomeD: "find P xs = Some x \<Longrightarrow> P x"
  by (induction xs) (auto split: if_splits)


text \<open>
  C1. Calling the policy upsert twice with the same name. The Consul client looks the name
  up first: on a server that holds no policy of that name, the two calls leave exactly one
  stored policy of that name, with the rule body of the first call, and the second call
  returns it (its own body is ignored). The Vault client sends the body without looking:
  after the two calls the policy stored under the name has the body of the second call.
\<close>

theorem create_policy_twice:
  "(consul_fault (consul w) = None
      \<and> find (\<lambda>p. pol_Name p = n) (acl_policies (consul w)) = None \<longrightarrow>
      fst (ConsulManager_create_policy n b1 w)
        = Inr \<lparr>pol_ID = consul_ids (consul w) (consul_issued (consul w)),
               pol_Name = n, pol_Rules = b1\<rparr>
      \<and> fst (ConsulManager_create_policy n b2 (snd (ConsulManager_create_policy n b1 w)))
        = Inr \<lparr>pol_ID = consul_ids (consul w) (consul_issued (consul w)),
               pol_Name = n, pol_Rules = b1\<rparr>
      \<and> filter (\<lambda>p. pol_Name p = n) (acl_policies (consul
            (snd (ConsulManager_create_policy n b2 (snd (ConsulManager_create_policy n b1 w))))))
        = [\<lparr>pol_ID = consul_ids (consul w) (consul_issued (consul w)),
             pol_Name = n, pol_Rules = b1\<rparr>])
   \<and> (vault_fault (vault w) = None \<longrightarrow>
      fst (VaultManager_create_policy n b1 w) = Inr ()
      \<and> fst (VaultManager_create_policy n b2 (snd (VaultManager_create_policy n b1 w))) = Inr ()
      \<and> sys_policies (vault
            (snd (VaultManager_create_policy n b2 (snd (VaultManager_create_policy n b1 w))))) n
        = Some b2)"
proof (intro conjI impI)
  assume h: "consul_fault (consul w) = None
      \<and> find (\<lambda>p. pol_Name p = n) (acl_policies (consul w)) = None"
  then have ok: "consul_fault (consul w) = None"
    and new: "find (\<lambda>p. pol_Name p = n) (acl_policies (consul w)) = None"
    by simp_all
  let ?p = "\<lparr>pol_ID = consul_ids (consul w) (consul_issued (consul w)),
               pol_Name = n, pol_Rules = b1\<rparr>"
  let ?w1 = "snd (ConsulManager_create_policy n b1 w)"
  note first = consul_create_policy_new [OF ok new, of b1]
  show r1: "fst (ConsulManager_create_policy n b1 w) = Inr ?p"
    by (simp add: first)
  have ok1: "consul_fault (consul ?w1) = None"
    using ok by (simp add: first)
  have pols: "acl_policies (consul ?w1) = acl_policies (consul w) @ [?p]"
    by (simp add: first)
  have there: "find (\<lambda>p. pol_Name p = n) (acl_policies (consul ?w1)) = Some ?p"
    unfolding pols using new by (simp add: find_append_new)
  note second = consul_create_policy_existing [OF ok1 there, of b2]
  show "fst (ConsulManager_create_policy n b2 ?w1) = Inr ?p"
    by (simp add: second)
  show "filter (\<lambda>p. pol_Name p = n) (acl_policies (consul
            (snd (ConsulManager_create_policy n b2 ?w1)))) = [?p]"
    using new by (simp add: second pols filter_find_None)
next
  assume ok: "vault_fault (vault w) = None"
  let ?w1 = "snd (VaultManager_create_policy n b1 w)"
  note first = vault_create_policy_ok [OF ok, of n b1]
  show "fst (VaultManager_create_policy n b1 w) = Inr ()"
    by (simp add: first)
  have ok1: "vault_fault (vault ?w1) = None"
    using ok by (simp add: first)
  note second = vault_create_policy_ok [OF ok1, of n b2]
  show "fst (VaultManager_create_policy n b2 ?w1) = Inr ()"
    by (simp add: second)
  show "sys_policies (vault (snd (VaultManager_create_policy n b2 ?w1))) n = Some b2"
    by (simp add: second)
qed

theorem create_policy_twice_witness:
  "consul_fault (consul world0) = None
   \<and> find (\<lambda>p. pol_Name p = ''payments'') (acl_policies (consul world0)) = None
   \<and> vault_fault (vault world0) = None
   \<and> filter (\<lambda>p. pol_Name p = ''payments'') (acl_policies (consul
        (snd (ConsulManager_create_policy ''payments'' ''second''
           (snd (ConsulManager_create_policy ''payments'' ''first'' world0))))))
      = [\<lparr>pol_ID = ''id-'', pol_Name = ''payments'', pol_Rules = ''first''\<rparr>]
   \<and> sys_policies (vault
        (snd (VaultManager_create_policy ''payments'' ''second''
           (snd (VaultManager_create_policy ''payments'' ''first'' world0))))) ''payments''
      = Some ''second''"
proof -
  have h: "consul_fault (consul world0) = None"
    "find (\<lambda>p. pol_Name p = ''payments'') (acl_policies (consul world0)) = None"
    "vault_fault (vault world0) = None"
    by (simp_all add: world0_def consul0_def vault0_def)
  have i: "consul_ids (consul world0) (consul_issued (consul world0)) = ''id-''"
    by (simp add: world0_def consul0_def ids0_def)
  show ?thesis
    using h i create_policy_twice [where w = world0 and n = "''payments''"
        and ?b1.0 = "''first''" and ?b2.0 = "''second''"]
    by simp
qed

text \<open>
  The claim as it was stated, that the first body is kept by both clients, fails for the
  Vault client: with the bodies \<open>first\<close> and \<open>second\<close> the stored body is \<open>second\<close>.
\<close>

theorem vault_create_policy_keeps_second_body:
  "sys_policies (vault
      (snd (VaultManager_create_policy ''payments'' ''second''
         (snd (VaultManager_create_policy ''payments'' ''first'' world0))))) ''payments''
     = Some ''second''
   \<and> sys_policies (vault
      (snd (VaultManager_create_policy ''payments'' ''second''
         (snd (VaultManager_create_policy ''payments'' ''first'' world0))))) ''payments''
     \<noteq> Some ''first''"
proof -
  have ok: "vault_fault (vault world0) = None"
    by (simp add: world0_def vault0_def)
  let ?w1 = "snd (VaultManager_create_policy ''payments'' ''first'' world0)"
  have ok1: "vault_fault (vault ?w1) = None"
    using ok by (simp add: vault_create_policy_ok)
  show ?thesis
    by (simp add: vault_create_policy_ok [OF ok1])
qed


lemma find_Some_mem: "find P xs = Some x \<Longrightarrow> x \<in> set xs"
  by (induction xs) (auto split: if_splits)

text \<open>
  C7. For group \<open>payments\<close> and namespace \<open>payments-ns\<close>, on a Consul server that
  answers, \<open>generate_consul_secret\<close> looks up the policy named \<open>payments\<close> and the
  token described \<open>payments\<close>. When no policy of that name is stored it creates one with the
  rule text \<open>key_prefix "payments/" { policy = "write" }\<close>; when one is stored it takes the
  stored policy as it is, whatever its rules, and stores nothing. When no token of that
  description is stored it creates one bound to the id of that policy; when one is stored it
  takes the stored token as it is, whatever policies it is bound to, and stores nothing. It
  returns the serialised Secret manifest with \<open>metadata.name = consul-payments\<close>, type
  \<open>Opaque\<close> and the data field \<open>CONSUL_TOKEN\<close> holding the base64 text of the
  \<open>SecretID\<close> of that token.
\<close>

theorem generate_consul_secret_payments:
  "consul_fault (consul w) = None \<longrightarrow>
    (let c = consul w;
         found = find (\<lambda>p. pol_Name p = ''payments'') (acl_policies c);
         pol = (case found of Some p \<Rightarrow> p
                | None \<Rightarrow> \<lparr>pol_ID = consul_ids c (consul_issued c), pol_Name = ''payments'',
                            pol_Rules = payments_rule\<rparr>);
         k = (case found of Some p \<Rightarrow> consul_issued c | None \<Rightarrow> Suc (consul_issued c));
         held = find (\<lambda>t. tok_Description t = ''payments'') (acl_tokens c);
         tok = (case held of Some t \<Rightarrow> t
                | None \<Rightarrow> \<lparr>tok_AccessorID = consul_ids c k, tok_SecretID = consul_ids c (Suc k),
                            tok_Description = ''payments'', tok_Policies = [pol_ID pol]\<rparr>);
         manifest = consul_secret_doc ''payments'' ''payments-ns'' (tok_SecretID tok)
     in fst (generate_consul_secret L ''payments'' ''payments-ns'' w) = Inr (yaml_dump L manifest)
        \<and> acl_policies (consul (snd (generate_consul_secret L ''payments'' ''payments-ns'' w)))
            = (case found of Some p \<Rightarrow> acl_policies c | None \<Rightarrow> acl_policies c @ [pol])
        \<and> acl_tokens (consul (snd (generate_consul_secret L ''payments'' ''payments-ns'' w)))
            = (case held of Some t \<Rightarrow> acl_tokens c | None \<Rightarrow> acl_tokens c @ [tok])
        \<and> pol_Name pol = ''payments''
        \<and> tok_Description tok = ''payments''
        \<and> (found = None \<longrightarrow> pol_Rules pol = payments_rule)
        \<and> (held = None \<longrightarrow> tok_Policies tok = [pol_ID pol])
        \<and> (found \<noteq> None \<longrightarrow> found = Some pol \<and> pol \<in> set (acl_policies c))
        \<and> (held \<noteq> None \<longrightarrow> held = Some tok \<and> tok \<in> set (acl_tokens c))
        \<and> doc_get ''kind'' manifest = Some (DStr ''Secret'')
        \<and> doc_get ''metadata'' manifest
            = Some (DDict [(''name'', DStr ''consul-payments''),
                           (''namespace'', DStr ''payments-ns'')])
        \<and> doc_get ''type'' manifest = Some (DStr ''Opaque'')
        \<and> doc_get ''data'' manifest
            = Some (DDict [(''CONSUL_TOKEN'', DStr (b64encode (tok_SecretID tok)))]))"
  (is "_ \<longrightarrow> ?concl")
proof
  assume ok: "consul_fault (consul w) = None"
  have rule: "''key_prefix '' @ dq @ ''payments'' @ ''/'' @ dq
      @ '' { policy = '' @ dq @ ''write'' @ dq @ '' }'' = payments_rule"
    by (simp add: payments_rule_def)
  note run = generate_consul_secret_run [OF ok, where g = "''payments''" and L = L
      and ns = "''payments-ns''", unfolded rule]
  have name: "pol_Name (case find (\<lambda>p. pol_Name p = ''payments'') (acl_policies (consul w)) of
        Some p \<Rightarrow> p
      | None \<Rightarrow> \<lparr>pol_ID = consul_ids (consul w) (consul_issued (consul w)),
                   pol_Name = ''payments'', pol_Rules = payments_rule\<rparr>) = ''payments''"
    by (auto split: option.splits dest: find_SomeD)
  have descr: "tok_Description
      (case find (\<lambda>t. tok_Description t = ''payments'') (acl_tokens (consul w)) of
         Some t \<Rightarrow> t
       | None \<Rightarrow> \<lparr>tok_AccessorID = a, tok_SecretID = b, tok_Description = ''payments'',
                    tok_Policies = ps\<rparr>) = ''payments''" for a b ps
    by (auto split: option.splits dest: find_SomeD)
  show ?concl
    unfolding Let_def
    by (intro conjI)
       (rule run(1), rule run(2), rule run(3), rule name, rule descr,
        auto simp add: consul_secret_doc_def dest: find_Some_mem)
qed

theorem generate_consul_secret_payments_witness:
  "consul_fault (consul world0) = None
   \<and> fst (generate_consul_secret serial0 ''payments'' ''payments-ns'' world0)
       = Inr (show_doc (consul_secret_doc ''payments'' ''payments-ns'' ''id-xx''))
   \<and> acl_policies (consul (snd (generate_consul_secret serial0 ''payments'' ''payments-ns'' world0)))
       = [\<lparr>pol_ID = ''id-'', pol_Name = ''payments'', pol_Rules = payments_rule\<rparr>]
   \<and> acl_tokens (consul (snd (generate_consul_secret serial0 ''payments'' ''payments-ns'' world0)))
       = [\<lparr>tok_AccessorID = ''id-x'', tok_SecretID = ''id-xx'', tok_Description = ''payments'',
           tok_Policies = [''id-'']\<rparr>]
   \<and> doc_get ''data'' (consul_secret_doc ''payments'' ''payments-ns'' ''id-xx'')
       = Some (DDict [(''CONSUL_TOKEN'', DStr ''aWQteHg='')])
   \<and> consul_fault (consul world3) = None
   \<and> fst (generate_consul_secret serial0 ''payments'' ''payments-ns'' world3)
       = Inr (show_doc (consul_secret_doc ''payments'' ''payments-ns'' ''s-old''))
   \<and> acl_policies (consul (snd (generate_consul_secret serial0 ''payments'' ''payments-ns'' world3)))
       = [stale_policy]
   \<and> acl_tokens (consul (snd (generate_consul_secret serial0 ''payments'' ''payments-ns'' world3)))
       = [stale_token]"
proof -
  have h: "consul_fault (consul world0) = None"
    by (simp add: world0_def consul0_def)
  have c: "consul world0 = consul0" "acl_policies consul0 = []" "acl_tokens consul0 = []"
    "consul_ids consul0 = ids0" "consul_issued consul0 = 0" "consul_fault consul0 = None"
    by (simp_all add: world0_def consul0_def)
  have i: "ids0 0 = ''id-''" "ids0 (Suc 0) = ''id-x''" "ids0 (Suc (Suc 0)) = ''id-xx''"
    by (simp_all add: ids0_def)
  have e: "b64encode ''id-xx'' = ''aWQteHg=''"
    by (simp add: b64_char_def b64_alphabet_def)
  have y: "yaml_dump serial0 = show_doc"
    by (simp add: serial0_def)
  have fresh: "fst (generate_consul_secret serial0 ''payments'' ''payments-ns'' world0)
       = Inr (show_doc (consul_secret_doc ''payments'' ''payments-ns'' ''id-xx''))
   \<and> acl_policies (consul (snd (generate_consul_secret serial0 ''payments'' ''payments-ns'' world0)))
       = [\<lparr>pol_ID = ''id-'', pol_Name = ''payments'', pol_Rules = payments_rule\<rparr>]
   \<and> acl_tokens (consul (snd (generate_consul_secret serial0 ''payments'' ''payments-ns'' world0)))
       = [\<lparr>tok_AccessorID = ''id-x'', tok_SecretID = ''id-xx'', tok_Description = ''payments'',
           tok_Policies = [''id-'']\<rparr>]
   \<and> doc_get ''data'' (consul_secret_doc ''payments'' ''payments-ns'' ''id-xx'')
       = Some (DDict [(''CONSUL_TOKEN'', DStr ''aWQteHg='')])"
    using generate_consul_secret_payments [where w = world0 and L = serial0]
    by (simp add: h c i e y Let_def b64_char_def b64_alphabet_def)
  have h3: "consul_fault (consul world3) = None"
    by (simp add: world3_def consul1_def consul0_def)
  have c3: "consul world3 = consul1" "acl_policies consul1 = [stale_policy]"
    "acl_tokens consul1 = [stale_token]" "consul_fault consul1 = None"
    by (simp_all add: world3_def consul1_def consul0_def)
  have s3: "pol_Name stale_policy = ''payments''" "tok_Description stale_token = ''payments''"
    "tok_SecretID stale_token = ''s-old''"
    by (simp_all add: stale_policy_def stale_token_def)
  have stale: "fst (generate_consul_secret serial0 ''payments'' ''payments-ns'' world3)
       = Inr (show_doc (consul_secret_doc ''payments'' ''payments-ns'' ''s-old''))
   \<and> acl_policies (consul (snd (generate_consul_secret serial0 ''payments'' ''payments-ns'' world3)))
       = [stale_policy]
   \<and> acl_tokens (consul (snd (generate_consul_secret serial0 ''payments'' ''payments-ns'' world3)))
       = [stale_token]"
    using generate_consul_secret_payments [where w = world3 and L = serial0]
    by (simp add: h3 c3 s3 y Let_def)
  show ?thesis
    using h h3 fresh stale by simp
qed

text \<open>
  The claim as it was stated, that the policy reused has the rule text of the group and the
  token reused is bound to the id of that policy, fails on a server that already holds a
  policy named \<open>payments\<close> with other rules and a token described \<open>payments\<close> bound to
  another policy: both are taken as they are, nothing is stored, and the manifest carries the
  \<open>SecretID\<close> of the stored token.
\<close>

theorem stale_policy_and_token_are_reused:
  "fst (generate_consul_secret serial0 ''payments'' ''payments-ns'' world3)
       = Inr (show_doc (consul_secret_doc ''payments'' ''payments-ns'' (tok_SecretID stale_token)))
   \<and> acl_policies (consul (snd (generate_consul_secret serial0 ''payments'' ''payments-ns'' world3)))
       = [stale_policy]
   \<and> acl_tokens (consul (snd (generate_consul_secret serial0 ''payments'' ''payments-ns'' world3)))
       = [stale_token]
   \<and> pol_Name stale_policy = ''payments''
   \<and> pol_Rules stale_policy \<noteq> payments_rule
   \<and> tok_Description stale_token = ''payments''
   \<and> tok_Policies stale_token \<noteq> [pol_ID stale_policy]"
proof -
  have h3: "consul_fault (consul world3) = None"
    by (simp add: world3_def consul1_def consul0_def)
  have c3: "consul world3 = consul1" "acl_policies consul1 = [stale_policy]"
    "acl_tokens consul1 = [stale_token]"
    by (simp_all add: world3_def consul1_def consul0_def)
  have s3: "pol_Name stale_policy = ''payments''" "tok_Description stale_token = ''payments''"
    by (simp_all add: stale_policy_def stale_token_def)
  have y: "yaml_dump serial0 = show_doc"
    by (simp add: serial0_def)
  note run = generate_consul_secret_run [OF h3, where g = "''payments''" and L = serial0
      and ns = "''payments-ns''"]
  have r1: "fst (generate_consul_secret serial0 ''payments'' ''payments-ns'' world3)
       = Inr (show_doc (consul_secret_doc ''payments'' ''payments-ns'' (tok_SecretID stale_token)))"
    using run(1) by (simp add: c3 s3 y)
  have r2: "acl_policies (consul (snd (generate_consul_secret serial0 ''payments'' ''payments-ns'' world3)))
       = [stale_policy]"
    using run(2) by (simp add: c3 s3)
  have r3: "acl_tokens (consul (snd (generate_consul_secret serial0 ''payments'' ''payments-ns'' world3)))
       = [stale_token]"
    using run(3) by (simp add: c3 s3)
  have d: "pol_Rules stale_policy \<noteq> payments_rule"
    "tok_Policies stale_token \<noteq> [pol_ID stale_policy]"
    by (simp_all add: stale_policy_def stale_token_def payments_rule_def dq_def)
  show ?thesis
    using r1 r2 r3 s3 d by simp
qed

section \<open>Properties of the project workflow\<close>


lemma gitlab_request_ok:
  "gl_fault (gitlab w) = None \<Longrightarrow>
   gitlab_request rq f w =
     (fst (f ((gitlab w)\<lparr>gl_requests := gl_requests (gitlab w) @ [rq]\<rparr>)),
      w\<lparr>gitlab := snd (f ((gitlab w)\<lparr>gl_requests := gl_requests (gitlab w) @ [rq]\<rparr>))\<rparr>)"
  by (simp add: gitlab_request_def Let_def split: prod.splits)

lemma assign_member_skip:
  assumes "gl_fault (gitlab w) = None" "user_lookup (gitlab w) u = []"
  shows "assign_member v p role u w =
    (Inr (), w\<lparr>gitlab := (gitlab w)\<lparr>gl_requests := gl_requests (gitlab w) @ [UsersList u]\<rparr>,
               stdout := stdout w @ [u @ '' for '' @ role @ '' access is not available'']\<rparr>)"
  using assms
  by (simp add: assign_member_def try_except_def bind_def users_list_def gitlab_request_ok
        user_lookup_def raise_def print_def)

lemma assign_roles_Cons:
  "assign_roles v p ((role, u # us) # rest) =
     bind (assign_member v p role u) (\<lambda>_. assign_roles v p ((role, us) # rest))"
  by (rule ext) (simp add: assign_roles_def bind_def split: prod.splits sum.splits)

lemma assign_roles_Nil_users:
  "assign_roles v p ((role, []) # rest) = assign_roles v p rest"
  by (rule ext) (simp add: assign_roles_def bind_def ret_def)

lemma assign_roles_Nil: "assign_roles v p [] = ret ()"
  by (simp add: assign_roles_def)

lemma assign_roles_all_skipped:
  "gl_fault (gitlab w) = None \<Longrightarrow>
   \<forall>(role, users) \<in> set roles. \<forall>u \<in> set users. user_lookup (gitlab w) u = [] \<Longrightarrow>
   fst (assign_roles v p roles w) = Inr ()
   \<and> gl_projects (gitlab (snd (assign_roles v p roles w))) = gl_projects (gitlab w)"
proof (induction roles arbitrary: w)
  case Nil
  then show ?case by (simp add: assign_roles_Nil ret_def)
next
  case (Cons ru roles)
  obtain role users where ru: "ru = (role, users)" by (cases ru)
  from Cons.prems show ?case unfolding ru
  proof (induction users arbitrary: w)
    case Nil
    then show ?case using Cons.IH [of w] by (simp add: assign_roles_Nil_users)
  next
    case (Cons u us)
    let ?w1 = "w\<lparr>gitlab := (gitlab w)\<lparr>gl_requests := gl_requests (gitlab w) @ [UsersList u]\<rparr>,
               stdout := stdout w @ [u @ '' for '' @ role @ '' access is not available'']\<rparr>"
    have skip: "assign_member v p role u w = (Inr (), ?w1)"
      using Cons.prems by (intro assign_member_skip) auto
    have "gl_fault (gitlab ?w1) = None"
      using Cons.prems by simp
    moreover have "\<forall>(role, users)\<in>set ((role, us) # roles).
        \<forall>u\<in>set users. user_lookup (gitlab ?w1) u = []"
      using Cons.prems(2) by (auto simp: user_lookup_def)
    ultimately have "fst (assign_roles v p ((role, us) # roles) ?w1) = Inr ()
      \<and> gl_projects (gitlab (snd (assign_roles v p ((role, us) # roles) ?w1)))
          = gl_projects (gitlab ?w1)"
      by (rule Cons.IH)
    then show ?case
      by (simp add: assign_roles_Cons bind_def skip)
  qed
qed



text \<open>
  C8. A username of the maintainer or developer list that resolves to no user (the lookup
  returns the empty list) is logged as skipped and the loops go on with the remaining
  usernames and the remaining role list: the run from that username on is the run on the
  rest, after the lookup request and the message. It is never fatal: when no listed
  username resolves, the membership step ends normally and no project is changed.
\<close>

theorem unresolvable_username_is_skipped:
  "(gl_fault (gitlab w) = None \<and> user_lookup (gitlab w) u = [] \<longrightarrow>
      assign_member v p role u w =
        (Inr (), w\<lparr>gitlab := (gitlab w)\<lparr>gl_requests := gl_requests (gitlab w) @ [UsersList u]\<rparr>,
                   stdout := stdout w @ [u @ '' for '' @ role @ '' access is not available'']\<rparr>)
      \<and> assign_roles v p ((role, u # us) # rest) w =
          assign_roles v p ((role, us) # rest)
            (w\<lparr>gitlab := (gitlab w)\<lparr>gl_requests := gl_requests (gitlab w) @ [UsersList u]\<rparr>,
               stdout := stdout w @ [u @ '' for '' @ role @ '' access is not available'']\<rparr>))
   \<and> (gl_fault (gitlab w) = None
        \<and> (\<forall>u \<in> set (convert_string_to_list (CI_ACCESS_MAINTAINER c)
                       @ convert_string_to_list (CI_ACCESS_DEVELOPER c)).
              user_lookup (gitlab w) u = []) \<longrightarrow>
        fst (assign_members c v p w) = Inr ()
        \<and> gl_projects (gitlab (snd (assign_members c v p w))) = gl_projects (gitlab w))"
proof (intro conjI impI)
  assume h: "gl_fault (gitlab w) = None \<and> user_lookup (gitlab w) u = []"
  then have skip: "assign_member v p role u w =
        (Inr (), w\<lparr>gitlab := (gitlab w)\<lparr>gl_requests := gl_requests (gitlab w) @ [UsersList u]\<rparr>,
                   stdout := stdout w @ [u @ '' for '' @ role @ '' access is not available'']\<rparr>)"
    by (simp add: assign_member_skip)
  then show "assign_member v p role u w =
        (Inr (), w\<lparr>gitlab := (gitlab w)\<lparr>gl_requests := gl_requests (gitlab w) @ [UsersList u]\<rparr>,
                   stdout := stdout w @ [u @ '' for '' @ role @ '' access is not available'']\<rparr>)" .
  show "assign_roles v p ((role, u # us) # rest) w =
          assign_roles v p ((role, us) # rest)
            (w\<lparr>gitlab := (gitlab w)\<lparr>gl_requests := gl_requests (gitlab w) @ [UsersList u]\<rparr>,
               stdout := stdout w @ [u @ '' for '' @ role @ '' access is not available'']\<rparr>)"
    by (simp add: assign_roles_Cons bind_def skip)
next
  assume h: "gl_fault (gitlab w) = None
        \<and> (\<forall>u \<in> set (convert_string_to_list (CI_ACCESS_MAINTAINER c)
                       @ convert_string_to_list (CI_ACCESS_DEVELOPER c)).
              user_lookup (gitlab w) u = [])"
  then have ok: "gl_fault (gitlab w) = None"
    and all: "\<forall>(role, users) \<in> set [(''maintainer'', convert_string_to_list (CI_ACCESS_MAINTAINER c)),
          (''developer'', convert_string_to_list (CI_ACCESS_DEVELOPER c))].
        \<forall>u \<in> set users. user_lookup (gitlab w) u = []"
    by auto
  from assign_roles_all_skipped [OF ok all, of v p]
  show "fst (assign_members c v p w) = Inr ()"
    and "gl_projects (gitlab (snd (assign_members c v p w))) = gl_projects (gitlab w)"
    by (simp_all add: assign_members_def Let_def)
qed

lemma split_ghost: "convert_string_to_list (Some ''ghost'') = [''ghost'']"
  by (simp add: convert_string_to_list_def is_space_def)

lemma split_alice: "convert_string_to_list (Some ''alice'') = [''alice'']"
  by (simp add: convert_string_to_list_def is_space_def)

theorem unresolvable_username_is_skipped_witness:
  "gl_fault (gitlab world1) = None \<and> user_lookup (gitlab world1) ''ghost'' = []
   \<and> fst (assign_members conf0 ''code_subgroup_project'' (Some 600) world1) = Inr ()
   \<and> stdout (snd (assign_members conf0 ''code_subgroup_project'' (Some 600) world1))
       = [''ghost for maintainer access is not available'', ''Added developer: alice'']
   \<and> map proj_members (gl_projects (gitlab
        (snd (assign_members conf0 ''code_subgroup_project'' (Some 600) world1))))
       = [[(7, 20)]]"
proof -
  have h: "gl_fault (gitlab world1) = None \<and> user_lookup (gitlab world1) ''ghost'' = []"
    by (simp add: world1_def gitlab1_def gitlab0_def user_lookup_def)
  define wA where "wA = world1\<lparr>gitlab := (gitlab world1)\<lparr>gl_requests :=
        gl_requests (gitlab world1) @ [UsersList ''ghost'']\<rparr>,
      stdout := stdout world1 @ [''ghost'' @ '' for '' @ ''maintainer'' @ '' access is not available'']\<rparr>"
  have rest: "assign_roles ''code_subgroup_project'' (Some 600)
        [(''maintainer'', []), (''developer'', [''alice''])] wA
      = (Inr (), wA\<lparr>gitlab := (gitlab wA)\<lparr>
            gl_requests := gl_requests (gitlab wA) @ [UsersList ''alice'', MembersCreate 600 7 20],
            gl_projects := [\<lparr>proj_id = 600, proj_name = ''svc'', proj_namespace = Some 500,
                      proj_branches = [], proj_protected = [], proj_members = [(7, 20)]\<rparr>]\<rparr>,
          stdout := stdout wA @ [''Added developer: alice'']\<rparr>)"
    by (simp add: wA_def assign_roles_def assign_member_def try_except_def bind_def ret_def
          users_list_def members_create_def gitlab_request_def user_lookup_def update_project_def
          print_def world1_def world0_def gitlab1_def gitlab0_def REPORTER_ACCESS_def Let_def)
  have out: "stdout wA = [''ghost for maintainer access is not available'']"
    by (simp add: wA_def world1_def world0_def)
  have run: "assign_members conf0 ''code_subgroup_project'' (Some 600) world1
      = assign_roles ''code_subgroup_project'' (Some 600)
          [(''maintainer'', []), (''developer'', [''alice''])] wA"
    using h unresolvable_username_is_skipped [where w = world1 and u = "''ghost''"
        and v = "''code_subgroup_project''" and p = "Some 600" and role = "''maintainer''"
        and us = "[]" and rest = "[(''developer'', [''alice''])]"]
    by (simp add: assign_members_def Let_def conf0_def split_ghost split_alice wA_def)
  show ?thesis
    using h by (simp add: run rest out)
qed

lemma find_update_project:
  assumes "\<And>p. proj_id (f p) = proj_id p"
  shows "find (\<lambda>p. proj_id p = pid) (gl_projects (update_project pid f g))
       = map_option f (find (\<lambda>p. proj_id p = pid) (gl_projects g))"
proof -
  have "find (\<lambda>p. proj_id p = pid) (map (\<lambda>p. if proj_id p = pid then f p else p) ps)
      = map_option f (find (\<lambda>p. proj_id p = pid) ps)" for ps
    by (induction ps) (simp_all add: assms)
  then show ?thesis by (simp add: update_project_def)
qed

lemma update_project_fields:
  "gl_fault (update_project pid f g) = gl_fault g"
  "gl_requests (update_project pid f g) = gl_requests g"
  "gl_users (update_project pid f g) = gl_users g"
  by (simp_all add: update_project_def)

lemma protect_and_create_branch_run:
  fixes w :: world and b area failed :: string and pid :: nat and p :: gl_project
  assumes ok: "gl_fault (gitlab w) = None"
    and found: "find (\<lambda>p. proj_id p = pid) (gl_projects (gitlab w)) = Some p"
    and unprot: "b \<notin> fst ` set (proj_protected p)"
  defines "ref \<equiv> (if b = ''develop'' then ''main'' else ''develop'')"
  defines "err \<equiv> branch_creation_error (proj_branches p) b ref"
  defines "w' \<equiv> snd (protect_and_create_branch area failed pid b w)"
  shows "fst (protect_and_create_branch area failed pid b w) = Inr ()"
    and "gl_fault (gitlab w') = None"
    and "gl_requests (gitlab w') = gl_requests (gitlab w) @
           [ProtectedBranchesCreate pid b DEVELOPER_ACCESS MAINTAINER_ACCESS,
            BranchesCreate pid b ref]"
    and "stdout w' = stdout w @
           [case err of
              None \<Rightarrow> ''Branch '' @ sq @ b @ sq @ '' created from '' @ sq @ ref @ '' in ''
                         @ area @ '' group'' @ sq @ ''.''
            | Some m \<Rightarrow> failed @ sq @ b @ sq @ '': '' @ m]"
    and "find (\<lambda>p. proj_id p = pid) (gl_projects (gitlab w')) =
           Some (p\<lparr>proj_protected := proj_protected p @ [(b, DEVELOPER_ACCESS, MAINTAINER_ACCESS)],
                   proj_branches := (case err of None \<Rightarrow> proj_branches p @ [b]
                                     | Some m \<Rightarrow> proj_branches p)\<rparr>)"
proof -
  define g1 where "g1 = update_project pid
      (\<lambda>p. p\<lparr>proj_protected := proj_protected p @ [(b, DEVELOPER_ACCESS, MAINTAINER_ACCESS)]\<rparr>)
      ((gitlab w)\<lparr>gl_requests := gl_requests (gitlab w) @
          [ProtectedBranchesCreate pid b DEVELOPER_ACCESS MAINTAINER_ACCESS]\<rparr>)"
  have step1: "protectedbranches_create pid b DEVELOPER_ACCESS MAINTAINER_ACCESS w
      = (Inr (), w\<lparr>gitlab := g1\<rparr>)"
    using ok found unprot
    by (simp add: protectedbranches_create_def gitlab_request_ok g1_def)
  have f1: "gl_fault g1 = None"
    using ok by (simp add: g1_def update_project_fields)
  have found1: "find (\<lambda>p. proj_id p = pid) (gl_projects g1)
      = Some (p\<lparr>proj_protected := proj_protected p @ [(b, DEVELOPER_ACCESS, MAINTAINER_ACCESS)]\<rparr>)"
    unfolding g1_def using found by (simp add: find_update_project)
  have r1: "gl_requests g1 = gl_requests (gitlab w) @
      [ProtectedBranchesCreate pid b DEVELOPER_ACCESS MAINTAINER_ACCESS]"
    by (simp add: g1_def update_project_fields)
  define g2 where "g2 = g1\<lparr>gl_requests := gl_requests g1 @ [BranchesCreate pid b ref]\<rparr>"
  have found2: "find (\<lambda>p. proj_id p = pid) (gl_projects g2)
      = Some (p\<lparr>proj_protected := proj_protected p @ [(b, DEVELOPER_ACCESS, MAINTAINER_ACCESS)]\<rparr>)"
    using found1 by (simp add: g2_def)
  have run: "protect_and_create_branch area failed pid b w =
      (case err of
         None \<Rightarrow> (Inr (), w\<lparr>gitlab := update_project pid
                       (\<lambda>p. p\<lparr>proj_branches := proj_branches p @ [b]\<rparr>) g2,
                     stdout := stdout w @ [''Branch '' @ sq @ b @ sq @ '' created from '' @ sq @ ref
                        @ '' in '' @ area @ '' group'' @ sq @ ''.'']\<rparr>)
       | Some m \<Rightarrow> (Inr (), w\<lparr>gitlab := g2,
                     stdout := stdout w @ [failed @ sq @ b @ sq @ '': '' @ m]\<rparr>))"
    unfolding protect_and_create_branch_def bind_Inr [where m = "protectedbranches_create pid b DEVELOPER_ACCESS MAINTAINER_ACCESS", OF step1]
    using f1 found2
    by (cases err)
       (simp_all add: Let_def ref_def [symmetric] try_except_def bind_def branches_create_def
          gitlab_request_ok g2_def [symmetric] err_def [symmetric] print_def)
  show "fst (protect_and_create_branch area failed pid b w) = Inr ()"
    by (simp add: run split: option.splits)
  show "gl_fault (gitlab w') = None"
    using f1 by (simp add: w'_def run g2_def update_project_fields split: option.splits)
  show "gl_requests (gitlab w') = gl_requests (gitlab w) @
           [ProtectedBranchesCreate pid b DEVELOPER_ACCESS MAINTAINER_ACCESS,
            BranchesCreate pid b ref]"
    by (simp add: w'_def run g2_def r1 update_project_fields split: option.splits)
  show "stdout w' = stdout w @
           [case err of
              None \<Rightarrow> ''Branch '' @ sq @ b @ sq @ '' created from '' @ sq @ ref @ '' in ''
                         @ area @ '' group'' @ sq @ ''.''
            | Some m \<Rightarrow> failed @ sq @ b @ sq @ '': '' @ m]"
    by (simp add: w'_def run split: option.splits)
  show "find (\<lambda>p. proj_id p = pid) (gl_projects (gitlab w')) =
           Some (p\<lparr>proj_protected := proj_protected p @ [(b, DEVELOPER_ACCESS, MAINTAINER_ACCESS)],
                   proj_branches := (case err of None \<Rightarrow> proj_branches p @ [b]
                                     | Some m \<Rightarrow> proj_branches p)\<rparr>)"
    using found2 by (simp add: w'_def run find_update_project split: option.splits)
qed


lemma branch_loop_run:
  "gl_fault (gitlab w) = None
   \<and> find (\<lambda>p. proj_id p = pid) (gl_projects (gitlab w)) = Some p
   \<and> ''develop'' \<notin> fst ` set (proj_protected p)
   \<and> ''master'' \<notin> fst ` set (proj_protected p) \<longrightarrow>
     (let existing = proj_branches p;
          develop_error = branch_creation_error existing ''develop'' ''main'';
          existing' = (case develop_error of None \<Rightarrow> existing @ [''develop'']
                       | Some m \<Rightarrow> existing);
          master_error = branch_creation_error existing' ''master'' ''develop'';
          run = for_each branches (protect_and_create_branch area failed pid) w
      in fst run = Inr ()
         \<and> gl_requests (gitlab (snd run)) = gl_requests (gitlab w) @
             [ProtectedBranchesCreate pid ''develop'' DEVELOPER_ACCESS MAINTAINER_ACCESS,
              BranchesCreate pid ''develop'' ''main'',
              ProtectedBranchesCreate pid ''master'' DEVELOPER_ACCESS MAINTAINER_ACCESS,
              BranchesCreate pid ''master'' ''develop'']
         \<and> stdout (snd run) = stdout w @
             [case develop_error of
                None \<Rightarrow> ''Branch '' @ sq @ ''develop'' @ sq @ '' created from '' @ sq @ ''main''
                           @ '' in '' @ area @ '' group'' @ sq @ ''.''
              | Some m \<Rightarrow> failed @ sq @ ''develop'' @ sq @ '': '' @ m,
              case master_error of
                None \<Rightarrow> ''Branch '' @ sq @ ''master'' @ sq @ '' created from '' @ sq @ ''develop''
                           @ '' in '' @ area @ '' group'' @ sq @ ''.''
              | Some m \<Rightarrow> failed @ sq @ ''master'' @ sq @ '': '' @ m])"
  (is "?hyp \<longrightarrow> ?concl")
proof
  assume h: ?hyp
  then have ok: "gl_fault (gitlab w) = None"
    and found: "find (\<lambda>p. proj_id p = pid) (gl_projects (gitlab w)) = Some p"
    and d: "''develop'' \<notin> fst ` set (proj_protected p)"
    and m: "''master'' \<notin> fst ` set (proj_protected p)"
    by simp_all
  define f where "f = protect_and_create_branch area failed pid"
  define w1 where "w1 = snd (f ''develop'' w)"
  define e1 where "e1 = branch_creation_error (proj_branches p) ''develop'' ''main''"
  define p1 where "p1 = p\<lparr>proj_protected := proj_protected p @
        [(''develop'', DEVELOPER_ACCESS, MAINTAINER_ACCESS)],
      proj_branches := (case e1 of None \<Rightarrow> proj_branches p @ [''develop'']
                        | Some m \<Rightarrow> proj_branches p)\<rparr>"
  note s1 = protect_and_create_branch_run [OF ok found d, of area failed,
      folded f_def, folded w1_def, simplified, folded e1_def, folded p1_def]
  have m1: "''master'' \<notin> fst ` set (proj_protected p1)"
    using m by (simp add: p1_def)
  define w2 where "w2 = snd (f ''master'' w1)"
  define e2 where "e2 = branch_creation_error (proj_branches p1) ''master'' ''develop''"
  note s2 = protect_and_create_branch_run [OF s1(2) s1(5) m1, of area failed,
      folded f_def, folded w2_def, simplified, folded e2_def]
  have a1: "f ''develop'' w = (Inr (), w1)"
    using s1(1) by (simp add: w1_def prod_eq_iff)
  have a2: "f ''master'' w1 = (Inr (), w2)"
    using s2(1) by (simp add: w2_def prod_eq_iff)
  have run: "for_each branches f w = (Inr (), w2)"
    by (simp add: branches_def bind_def ret_def a1 a2)
  have B1: "proj_branches p1 = (case e1 of None \<Rightarrow> proj_branches p @ [''develop'']
                        | Some m \<Rightarrow> proj_branches p)"
    by (simp add: p1_def)
  show ?concl
    unfolding Let_def f_def [symmetric] run e1_def [symmetric] B1 [symmetric] e2_def [symmetric]
    using s1(3,4) s2(3,4) by simp
qed


text \<open>
  C4. For the fixed branch list \<open>develop\<close>, \<open>master\<close>, the loop protects each branch and
  asks for its creation: \<open>develop\<close> with the ref \<open>main\<close>, then \<open>master\<close> with the ref
  \<open>develop\<close>. A creation that the server refuses is not fatal: its message is printed and
  the loop goes on, and ends normally.
\<close>

theorem branches_created_from_main_and_develop:
  "gl_fault (gitlab w) = None
   \<and> find (\<lambda>p. proj_id p = pid) (gl_projects (gitlab w)) = Some p
   \<and> ''develop'' \<notin> fst ` set (proj_protected p)
   \<and> ''master'' \<notin> fst ` set (proj_protected p) \<longrightarrow>
     (let existing = proj_branches p;
          develop_error = branch_creation_error existing ''develop'' ''main'';
          existing' = (case develop_error of None \<Rightarrow> existing @ [''develop'']
                       | Some m \<Rightarrow> existing);
          master_error = branch_creation_error existing' ''master'' ''develop'';
          run = for_each branches (protect_and_create_branch area failed pid) w
      in fst run = Inr ()
         \<and> gl_requests (gitlab (snd run)) = gl_requests (gitlab w) @
             [ProtectedBranchesCreate pid ''develop'' DEVELOPER_ACCESS MAINTAINER_ACCESS,
              BranchesCreate pid ''develop'' ''main'',
              ProtectedBranchesCreate pid ''master'' DEVELOPER_ACCESS MAINTAINER_ACCESS,
              BranchesCreate pid ''master'' ''develop'']
         \<and> stdout (snd run) = stdout w @
             [case develop_error of
                None \<Rightarrow> ''Branch '' @ sq @ ''develop'' @ sq @ '' created from '' @ sq @ ''main''
                           @ '' in '' @ area @ '' group'' @ sq @ ''.''
              | Some m \<Rightarrow> failed @ sq @ ''develop'' @ sq @ '': '' @ m,
              case master_error of
                None \<Rightarrow> ''Branch '' @ sq @ ''master'' @ sq @ '' created from '' @ sq @ ''develop''
                           @ '' in '' @ area @ '' group'' @ sq @ ''.''
              | Some m \<Rightarrow> failed @ sq @ ''master'' @ sq @ '': '' @ m])"
  by (rule branch_loop_run)

theorem branches_created_from_main_and_develop_witness:
  "gl_fault (gitlab world1) = None
   \<and> find (\<lambda>p. proj_id p = 600) (gl_projects (gitlab world1))
       = Some \<lparr>proj_id = 600, proj_name = ''svc'', proj_namespace = Some 500,
               proj_branches = [], proj_protected = [], proj_members = []\<rparr>
   \<and> fst (for_each branches
        (protect_and_create_branch ''CODE'' ''Creation of branch on CODE group '' 600) world1)
       = Inr ()
   \<and> gl_requests (gitlab (snd (for_each branches
        (protect_and_create_branch ''CODE'' ''Creation of branch on CODE group '' 600) world1)))
       = [ProtectedBranchesCreate 600 ''develop'' 30 40, BranchesCreate 600 ''develop'' ''main'',
          ProtectedBranchesCreate 600 ''master'' 30 40, BranchesCreate 600 ''master'' ''develop'']
   \<and> stdout (snd (for_each branches
        (protect_and_create_branch ''CODE'' ''Creation of branch on CODE group '' 600) world1))
       = [''Creation of branch on CODE group '' @ sq @ ''develop'' @ sq
            @ '': 400: Invalid reference name: main'',
          ''Creation of branch on CODE group '' @ sq @ ''master'' @ sq
            @ '': 400: Invalid reference name: develop'']"
proof -
  have h: "gl_fault (gitlab world1) = None"
    "find (\<lambda>p. proj_id p = 600) (gl_projects (gitlab world1))
       = Some \<lparr>proj_id = 600, proj_name = ''svc'', proj_namespace = Some 500,
               proj_branches = [], proj_protected = [], proj_members = []\<rparr>"
    "gl_requests (gitlab world1) = []" "stdout world1 = []"
    by (simp_all add: world1_def world0_def gitlab1_def gitlab0_def)
  show ?thesis
    using branches_created_from_main_and_develop [where w = world1 and pid = 600
        and area = "''CODE''" and failed = "''Creation of branch on CODE group ''"
        and p = "\<lparr>proj_id = 600, proj_name = ''svc'', proj_namespace = Some 500,
               proj_branches = [], proj_protected = [], proj_members = []\<rparr>"]
    by (simp add: h Let_def branch_creation_error_def DEVELOPER_ACCESS_def MAINTAINER_ACCESS_def)
qed


text \<open>
  The claim as it was stated has \<open>develop\<close> created from \<open>master\<close>. A run of
  \<open>create_project_code\<close> on a server without the project sends these requests; the one
  for \<open>develop\<close> names \<open>main\<close>.
\<close>

theorem develop_is_created_from_main:
  "gl_requests (gitlab (snd (create_project_code conf0 world0)))
     = [GroupsCreate ''payments'' 453, ProjectsCreate ''svc'' (Some 1000) True,
        ProtectedBranchesCreate 1001 ''develop'' 30 40, BranchesCreate 1001 ''develop'' ''main'',
        ProtectedBranchesCreate 1001 ''master'' 30 40, BranchesCreate 1001 ''master'' ''develop'',
        UsersList ''ghost'', UsersList ''alice'', MembersCreate 1001 7 20]
   \<and> BranchesCreate 1001 ''develop'' ''master''
        \<notin> set (gl_requests (gitlab (snd (create_project_code conf0 world0))))"
  by (simp add: create_project_code_def create_subgroup_def try_create_project_def
        project_except_def protect_and_create_branch_def assign_members_def assign_roles_def
        assign_member_def try_except_def bind_def ret_def raise_def print_def
        groups_create_def projects_create_def protectedbranches_create_def branches_create_def
        branch_creation_error_def users_list_def user_lookup_def members_create_def
        update_project_def gitlab_request_def Let_def branches_def
        convert_string_to_list_def is_space_def
        world0_def gitlab0_def conf0_def CI_CODE_GROUP_ID_def
        DEVELOPER_ACCESS_def MAINTAINER_ACCESS_def REPORTER_ACCESS_def)

lemma is_taken: "is_substring ''has already been taken'' taken_message"
  by (simp add: taken_message_def sq_def)

lemma try_create_project_taken:
  assumes "gl_fault (gitlab w) = None"
    "\<exists>p \<in> set (gl_projects (gitlab w)). proj_name p = name \<and> proj_namespace p = ns"
  shows "try_create_project area failed name ns cp w =
    (Inl (SystemExit (''Project '' @ sq @ name @ sq @ '' already exists in '' @ area
                        @ '' group. Skipping creation.'')),
     w\<lparr>gitlab := (gitlab w)\<lparr>gl_requests := gl_requests (gitlab w) @ [ProjectsCreate name ns cp]\<rparr>\<rparr>)"
  using assms
  by (simp add: try_create_project_def bind_def try_except_def projects_create_def
        gitlab_request_ok project_except_def is_taken raise_def)

lemma create_project_taken:
  "(create_subgroup c CI_CODE_GROUP_ID w = (Inr sg, w1) \<and> gl_fault (gitlab w1) = None
      \<and> (\<exists>p \<in> set (gl_projects (gitlab w1)).
            proj_name p = CI_PROJECT_NAME c \<and> proj_namespace p = sg) \<longrightarrow>
      create_project_code c w =
        (Inl (SystemExit (''Project '' @ sq @ CI_PROJECT_NAME c @ sq
                            @ '' already exists in CODE group. Skipping creation.'')),
         w1\<lparr>gitlab := (gitlab w1)\<lparr>gl_requests := gl_requests (gitlab w1) @
                [ProjectsCreate (CI_PROJECT_NAME c) sg True]\<rparr>\<rparr>)
      \<and> bind (create_project_code c) later w = create_project_code c w)
   \<and> (create_subgroup c CI_CHART_GROUP_ID w = (Inr sg, w1) \<and> gl_fault (gitlab w1) = None
      \<and> (\<exists>p \<in> set (gl_projects (gitlab w1)).
            proj_name p = chart_module c \<and> proj_namespace p = sg) \<longrightarrow>
      create_project_chart c w =
        (Inl (SystemExit (''Project '' @ sq @ chart_module c @ sq
                            @ '' already exists in CHART group. Skipping creation.'')),
         w1\<lparr>gitlab := (gitlab w1)\<lparr>gl_requests := gl_requests (gitlab w1) @
                [ProjectsCreate (chart_module c) sg False]\<rparr>\<rparr>)
      \<and> bind (create_project_chart c) later' w = create_project_chart c w)"
proof (intro conjI impI)
  assume h: "create_subgroup c CI_CODE_GROUP_ID w = (Inr sg, w1) \<and> gl_fault (gitlab w1) = None
      \<and> (\<exists>p \<in> set (gl_projects (gitlab w1)).
            proj_name p = CI_PROJECT_NAME c \<and> proj_namespace p = sg)"
  then have t: "try_create_project ''CODE'' ''Creation of branch on CODE group ''
        (CI_PROJECT_NAME c) sg True w1 =
      (Inl (SystemExit (''Project '' @ sq @ CI_PROJECT_NAME c @ sq @ '' already exists in ''
                          @ ''CODE'' @ '' group. Skipping creation.'')),
       w1\<lparr>gitlab := (gitlab w1)\<lparr>gl_requests := gl_requests (gitlab w1) @
              [ProjectsCreate (CI_PROJECT_NAME c) sg True]\<rparr>\<rparr>)"
    by (intro try_create_project_taken) simp_all
  from h t show code: "create_project_code c w =
        (Inl (SystemExit (''Project '' @ sq @ CI_PROJECT_NAME c @ sq
                            @ '' already exists in CODE group. Skipping creation.'')),
         w1\<lparr>gitlab := (gitlab w1)\<lparr>gl_requests := gl_requests (gitlab w1) @
                [ProjectsCreate (CI_PROJECT_NAME c) sg True]\<rparr>\<rparr>)"
    by (simp add: create_project_code_def bind_def)
  show "bind (create_project_code c) later w = create_project_code c w"
    by (simp add: code bind_def)
next
  assume h: "create_subgroup c CI_CHART_GROUP_ID w = (Inr sg, w1) \<and> gl_fault (gitlab w1) = None
      \<and> (\<exists>p \<in> set (gl_projects (gitlab w1)).
            proj_name p = chart_module c \<and> proj_namespace p = sg)"
  then have t: "try_create_project ''CHART'' ''Creation of branch on CHART group: ''
        (chart_module c) sg False w1 =
      (Inl (SystemExit (''Project '' @ sq @ chart_module c @ sq @ '' already exists in ''
                          @ ''CHART'' @ '' group. Skipping creation.'')),
       w1\<lparr>gitlab := (gitlab w1)\<lparr>gl_requests := gl_requests (gitlab w1) @
              [ProjectsCreate (chart_module c) sg False]\<rparr>\<rparr>)"
    by (intro try_create_project_taken) simp_all
  from h t show chart: "create_project_chart c w =
        (Inl (SystemExit (''Project '' @ sq @ chart_module c @ sq
                            @ '' already exists in CHART group. Skipping creation.'')),
         w1\<lparr>gitlab := (gitlab w1)\<lparr>gl_requests := gl_requests (gitlab w1) @
                [ProjectsCreate (chart_module c) sg False]\<rparr>\<rparr>)"
    by (simp add: create_project_chart_def bind_def Let_def)
  show "bind (create_project_chart c) later' w = create_project_chart c w"
    by (simp add: chart bind_def)
qed

lemma create_subgroup_world1:
  "create_subgroup conf0 CI_CODE_GROUP_ID world1 =
     (Inr (Some 500),
      world1\<lparr>gitlab := gitlab1\<lparr>gl_requests :=
                [GroupsCreate ''payments'' 453, GroupsGet 453, SubgroupsList 453]\<rparr>,
             stdout := [''Subgroup '' @ sq @ ''payments'' @ sq @ '' already exists.'']\<rparr>)"
  by (simp add: create_subgroup_def try_except_def bind_def ret_def groups_create_def
        groups_get_def subgroups_list_def gitlab_request_def Let_def print_def is_taken
        world1_def world0_def gitlab1_def gitlab0_def conf0_def CI_CODE_GROUP_ID_def)

text \<open>
  C3. When the creation of the project fails because the name has already been taken,
  \<open>create_project_code\<close> (and \<open>create_project_chart\<close> likewise) sends no further request
  after the one that failed (no branch protection, no branch, no membership, no second
  attempt) and calls \<open>sys.exit\<close> with the message: the function ends with
  \<open>SystemExit\<close>, so whatever statement follows the call is not run.
\<close>

theorem duplicate_project_exits_the_run:
  "(create_subgroup c CI_CODE_GROUP_ID w = (Inr sg, w1) \<and> gl_fault (gitlab w1) = None
      \<and> (\<exists>p \<in> set (gl_projects (gitlab w1)).
            proj_name p = CI_PROJECT_NAME c \<and> proj_namespace p = sg) \<longrightarrow>
      create_project_code c w =
        (Inl (SystemExit (''Project '' @ sq @ CI_PROJECT_NAME c @ sq
                            @ '' already exists in CODE group. Skipping creation.'')),
         w1\<lparr>gitlab := (gitlab w1)\<lparr>gl_requests := gl_requests (gitlab w1) @
                [ProjectsCreate (CI_PROJECT_NAME c) sg True]\<rparr>\<rparr>)
      \<and> bind (create_project_code c) later w = create_project_code c w)
   \<and> (create_subgroup c CI_CHART_GROUP_ID w = (Inr sg, w1) \<and> gl_fault (gitlab w1) = None
      \<and> (\<exists>p \<in> set (gl_projects (gitlab w1)).
            proj_name p = chart_module c \<and> proj_namespace p = sg) \<longrightarrow>
      create_project_chart c w =
        (Inl (SystemExit (''Project '' @ sq @ chart_module c @ sq
                            @ '' already exists in CHART group. Skipping creation.'')),
         w1\<lparr>gitlab := (gitlab w1)\<lparr>gl_requests := gl_requests (gitlab w1) @
                [ProjectsCreate (chart_module c) sg False]\<rparr>\<rparr>)
      \<and> bind (create_project_chart c) later' w = create_project_chart c w)"
  by (rule create_project_taken)

theorem duplicate_project_exits_the_run_witness:
  "fst (create_subgroup conf0 CI_CODE_GROUP_ID world1) = Inr (Some 500)
   \<and> gl_fault (gitlab (snd (create_subgroup conf0 CI_CODE_GROUP_ID world1))) = None
   \<and> (\<exists>p \<in> set (gl_projects (gitlab (snd (create_subgroup conf0 CI_CODE_GROUP_ID world1)))).
         proj_name p = CI_PROJECT_NAME conf0 \<and> proj_namespace p = Some 500)
   \<and> fst (create_project_code conf0 world1)
       = Inl (SystemExit (''Project '' @ sq @ ''svc'' @ sq
                            @ '' already exists in CODE group. Skipping creation.''))
   \<and> gl_requests (gitlab (snd (create_project_code conf0 world1)))
       = [GroupsCreate ''payments'' 453, GroupsGet 453, SubgroupsList 453,
          ProjectsCreate ''svc'' (Some 500) True]
   \<and> bind (create_project_code conf0) (\<lambda>_. create_project_chart conf0) world1
       = create_project_code conf0 world1"
proof -
  define wS where "wS = snd (create_subgroup conf0 CI_CODE_GROUP_ID world1)"
  have sub: "create_subgroup conf0 CI_CODE_GROUP_ID world1 = (Inr (Some 500), wS)"
    by (simp add: wS_def create_subgroup_world1)
  have ok: "gl_fault (gitlab wS) = None"
    by (simp add: wS_def create_subgroup_world1 gitlab1_def gitlab0_def)
  have ex: "\<exists>p \<in> set (gl_projects (gitlab wS)).
         proj_name p = CI_PROJECT_NAME conf0 \<and> proj_namespace p = Some 500"
    unfolding wS_def create_subgroup_world1
    by (simp add: gitlab1_def gitlab0_def conf0_def)
  have rq: "gl_requests (gitlab wS)
      = [GroupsCreate ''payments'' 453, GroupsGet 453, SubgroupsList 453]"
    by (simp add: wS_def create_subgroup_world1)
  have nm: "CI_PROJECT_NAME conf0 = ''svc''"
    by (simp add: conf0_def)
  show ?thesis
    using sub ok ex rq
      duplicate_project_exits_the_run [where c = conf0 and w = world1 and sg = "Some 500"
        and ?w1.0 = wS and later = "\<lambda>_. create_project_chart conf0"]
    by (simp add: wS_def [symmetric] nm)
qed

text \<open>
  The claim as it was stated lets the work for other projects go on. With the code project
  already there, the chart project that follows is never asked for.
\<close>

theorem duplicate_project_stops_later_work:
  "fst (bind (create_project_code conf0) (\<lambda>_. create_project_chart conf0) world1)
     = Inl (SystemExit (''Project '' @ sq @ ''svc'' @ sq
                          @ '' already exists in CODE group. Skipping creation.''))
   \<and> gl_requests (gitlab (snd
        (bind (create_project_code conf0) (\<lambda>_. create_project_chart conf0) world1)))
     = [GroupsCreate ''payments'' 453, GroupsGet 453, SubgroupsList 453,
        ProjectsCreate ''svc'' (Some 500) True]
   \<and> GroupsCreate ''payments'' CI_CHART_GROUP_ID \<notin> set (gl_requests (gitlab (snd
        (bind (create_project_code conf0) (\<lambda>_. create_project_chart conf0) world1))))"
proof -
  define wS where "wS = snd (create_subgroup conf0 CI_CODE_GROUP_ID world1)"
  have sub: "create_subgroup conf0 CI_CODE_GROUP_ID world1 = (Inr (Some 500), wS)"
    by (simp add: wS_def create_subgroup_world1)
  have ok: "gl_fault (gitlab wS) = None"
    by (simp add: wS_def create_subgroup_world1 gitlab1_def gitlab0_def)
  have ex: "\<exists>p \<in> set (gl_projects (gitlab wS)).
         proj_name p = CI_PROJECT_NAME conf0 \<and> proj_namespace p = Some 500"
    unfolding wS_def create_subgroup_world1
    by (simp add: gitlab1_def gitlab0_def conf0_def)
  have rq: "gl_requests (gitlab wS)
      = [GroupsCreate ''payments'' 453, GroupsGet 453, SubgroupsList 453]"
    by (simp add: wS_def create_subgroup_world1)
  have nm: "CI_PROJECT_NAME conf0 = ''svc''"
    by (simp add: conf0_def)
  show ?thesis
    using sub ok ex rq
      create_project_taken [where c = conf0 and w = world1 and sg = "Some 500"
        and ?w1.0 = wS and later = "\<lambda>_. create_project_chart conf0"]
    by (simp add: wS_def [symmetric] nm CI_CHART_GROUP_ID_def)
qed

section \<open>Properties of create\_global\_variable\<close>

lemma keepsI: "(\<And>w. part (snd (m w)) = part w) \<Longrightarrow> keeps part m"
  by (simp add: keeps_def)

lemma keepsD: "keeps part m \<Longrightarrow> part (snd (m w)) = part w"
  by (simp add: keeps_def)

lemma keeps_ret: "keeps part (ret a)"
  by (simp add: keeps_def ret_def)

lemma keeps_raise: "keeps part (raise e)"
  by (simp add: keeps_def raise_def)

lemma keeps_bind:
  assumes "keeps part m" "\<And>a. keeps part (f a)"
  shows "keeps part (bind m f)"
proof (rule keepsI)
  fix w
  show "part (snd (bind m f w)) = part w"
  proof (cases "m w")
    case (Pair r w1)
    have w1: "part w1 = part w"
      using keepsD [OF assms(1), of w] Pair by simp
    show ?thesis
    proof (cases r)
      case (Inl e)
      then show ?thesis using Pair w1 by (simp add: bind_def)
    next
      case (Inr a)
      then show ?thesis
        using Pair w1 keepsD [OF assms(2), of a w1] by (simp add: bind_def)
    qed
  qed
qed

lemma keeps_try:
  assumes "keeps part body" "\<And>e h. handler e = Some h \<Longrightarrow> keeps part h"
  shows "keeps part (try_except body handler)"
proof (rule keepsI)
  fix w
  show "part (snd (try_except body handler w)) = part w"
  proof (cases "body w")
    case (Pair r w1)
    have w1: "part w1 = part w"
      using keepsD [OF assms(1), of w] Pair by simp
    show ?thesis
    proof (cases r)
      case (Inr a)
      then show ?thesis using Pair w1 by (simp add: try_except_def)
    next
      case (Inl e)
      show ?thesis
      proof (cases "handler e")
        case None
        then show ?thesis using Pair Inl w1 by (simp add: try_except_def)
      next
        case (Some h)
        then show ?thesis
          using Pair Inl w1 keepsD [OF assms(2) [OF Some], of w1] by (simp add: try_except_def)
      qed
    qed
  qed
qed

lemma keeps_if: "keeps part m \<Longrightarrow> keeps part n \<Longrightarrow> keeps part (if b then m else n)"
  by simp

lemma keeps_print_vault: "keeps vault (print line)"
  by (simp add: keeps_def print_def)

lemma keeps_print_kv: "keeps (\<lambda>w. kv_v1 (vault w)) (print line)"
  by (simp add: keeps_def print_def)

lemma keeps_consul_request: "keeps vault (consul_request f)"
  by (simp add: keeps_def consul_request_def split: option.splits prod.splits)

lemma keeps_vault_request:
  assumes "\<And>v. kv_v1 (snd (f v)) = kv_v1 v"
  shows "keeps (\<lambda>w. kv_v1 (vault w)) (vault_request f)"
proof (rule keepsI)
  fix w
  show "kv_v1 (vault (snd (vault_request f w))) = kv_v1 (vault w)"
  proof (cases "vault_fault (vault w)")
    case None
    then show ?thesis
      using assms [of "vault w"] by (simp add: vault_request_ok)
  next
    case (Some msg)
    then show ?thesis by (simp add: vault_request_fault)
  qed
qed

lemma keeps_vault_kv: "keeps vault m \<Longrightarrow> keeps (\<lambda>w. kv_v1 (vault w)) m"
  by (simp add: keeps_def)

lemma generate_consul_secret_keeps_vault: "keeps vault (generate_consul_secret L g ns)"
  unfolding generate_consul_secret_def ConsulManager_create_policy_def
    ConsulManager_get_policy_def ConsulManager_create_token_def ConsulManager_token_exists_def
    ConsulManager_get_tokens_def get_acl_policies_def put_acl_policy_def get_acl_tokens_def
    put_acl_token_def Let_def
  by (intro keeps_bind keeps_ret keeps_print_vault keeps_consul_request allI)
     (auto split: option.splits intro!: keeps_bind keeps_ret keeps_print_vault keeps_consul_request)

lemma generate_vault_secret_keeps_kv:
  "keeps (\<lambda>w. kv_v1 (vault w)) (generate_vault_secret L g env ns)"
  unfolding generate_vault_secret_def VaultManager_create_policy_def
    VaultManager_create_or_get_role_id_def VaultManager_generate_secret_id_and_login_def
    hvac_create_or_update_policy_def hvac_read_role_id_def hvac_create_or_update_approle_def
    hvac_generate_secret_id_def hvac_login_def Let_def
  by (intro keeps_bind keeps_try keeps_ret keeps_print_kv keeps_vault_request)
     (auto split: option.splits py_exc.splits if_splits prod.splits
        intro!: keeps_bind keeps_ret keeps_print_kv keeps_vault_request)


lemma load_name_unbound:
  "frame name = None \<Longrightarrow> bind (load_name frame name) f = raise (NameError name)"
  by (rule ext) (simp add: load_name_def bind_def raise_def)

lemma bind_ret_left: "bind (ret a) f = f a"
  by (rule ext) (simp add: bind_def ret_def)

lemma bind_assoc: "bind (bind m f) g = bind m (\<lambda>x. bind (f x) g)"
  by (rule ext) (simp add: bind_def split: prod.splits sum.splits)

lemma frame_converted_secret_key: "global_variable_frame branch ''converted_secret_key'' = None"
  by (simp add: global_variable_frame_def module_names_def)

lemma frame_secret_value:
  "((global_variable_frame branch)(''consul_secret_value'' \<mapsto> a, ''vault_secret_value'' \<mapsto> b,
       ''regcred_secret_value'' \<mapsto> d)) ''secret_value'' = None"
  by (simp add: global_variable_frame_def module_names_def)

lemma load_secret_value:
  "bind (load_name ((global_variable_frame branch)(''consul_secret_value'' \<mapsto> a,
       ''vault_secret_value'' \<mapsto> b, ''regcred_secret_value'' \<mapsto> d)) ''secret_value'') f
   = raise (NameError ''secret_value'')"
  by (rule load_name_unbound) (rule frame_secret_value)

lemma load_converted_secret_key:
  "bind (load_name (global_variable_frame branch) ''converted_secret_key'') f
   = raise (NameError ''converted_secret_key'')"
  by (rule load_name_unbound) (rule frame_converted_secret_key)

lemma bind_returns:
  "fst (m w) = Inr a \<Longrightarrow> fst (bind m (\<lambda>x. raise e) w) = Inl e"
  by (cases "m w") (simp add: bind_def raise_def)

lemma write_branch_secret_eq:
  "write_branch_secret L c (global_variable_frame branch) branch =
     bind (generate_consul_secret L (CI_SUBGROUP_NAME c) (CD_HELM_NAMESPACE c))
       (\<lambda>consul_secret_value.
     bind (if branch \<in> set [''dev'', ''devdmz'']
           then bind (generate_vault_secret L (CI_SUBGROUP_NAME c) ''dev'' (CD_HELM_NAMESPACE c))
                  (\<lambda>secret. ret (PStr secret))
           else ret PNone) (\<lambda>vault_secret_value.
     bind (if branch \<in> set [''prod'', ''proddmz'', ''procdnz'']
           then bind (generate_vault_secret L (CI_SUBGROUP_NAME c) ''prod'' (CD_HELM_NAMESPACE c))
                  (\<lambda>secret. ret (PStr secret))
           else ret vault_secret_value) (\<lambda>vault_secret_value.
     raise (NameError ''secret_value''))))"
  unfolding write_branch_secret_def Let_def
  by (simp only: load_secret_value)

lemma bind_fails:
  assumes "\<And>a w'. \<exists>e. fst (f a w') = Inl e"
  shows "\<exists>e. fst (bind m f w) = Inl e"
proof (cases "m w")
  case (Pair r w1)
  show ?thesis
  proof (cases r)
    case (Inl e)
    then show ?thesis using Pair by (simp add: bind_def)
  next
    case (Inr a)
    then show ?thesis using Pair assms [of a w1] by (simp add: bind_def)
  qed
qed

lemma write_branch_secret_fails:
  "\<exists>e. fst (write_branch_secret L c (global_variable_frame branch) branch w) = Inl e"
  unfolding write_branch_secret_eq
  by (intro bind_fails) (simp add: raise_def)

lemma write_branch_secret_keeps_kv:
  "keeps (\<lambda>w. kv_v1 (vault w)) (write_branch_secret L c (global_variable_frame branch) branch)"
  unfolding write_branch_secret_eq
  by (intro keeps_bind keeps_if keeps_ret keeps_raise generate_vault_secret_keeps_kv
        keeps_vault_kv generate_consul_secret_keeps_vault)

lemma bind_fst_Inr:
  "fst (m w) = Inr a \<Longrightarrow> bind m f w = f a (snd (m w))"
  by (cases "m w") (simp add: bind_def)

lemma generate_consul_secret_returns:
  assumes "consul_fault (consul w) = None"
  shows "\<exists>s. fst (generate_consul_secret L g ns w) = Inr s"
  using generate_consul_secret_run(1) [OF assms, of L g ns] by blast

lemma generate_vault_secret_returns:
  assumes "vault_fault (vault w) = None"
  shows "\<exists>s. fst (generate_vault_secret L g env ns w) = Inr s"
  using generate_vault_secret_ok [OF assms, of L g env ns] by blast

lemma write_branch_secret_healthy:
  assumes c: "consul_fault (consul w) = None" and v: "vault_fault (vault w) = None"
  shows "fst (write_branch_secret L c (global_variable_frame branch) branch w)
       = Inl (NameError ''secret_value'')"
proof -
  obtain s where s: "fst (generate_consul_secret L (CI_SUBGROUP_NAME c) (CD_HELM_NAMESPACE c) w) = Inr s"
    using generate_consul_secret_returns [OF c] by blast
  define w1 where "w1 = snd (generate_consul_secret L (CI_SUBGROUP_NAME c) (CD_HELM_NAMESPACE c) w)"
  have v1: "vault_fault (vault w1) = None"
    using v keepsD [OF generate_consul_secret_keeps_vault, of L "CI_SUBGROUP_NAME c" "CD_HELM_NAMESPACE c" w]
    by (simp add: w1_def)
  obtain sd where sd: "fst (generate_vault_secret L (CI_SUBGROUP_NAME c) ''dev'' (CD_HELM_NAMESPACE c) w1) = Inr sd"
    using generate_vault_secret_returns [OF v1] by blast
  obtain sp where sp: "fst (generate_vault_secret L (CI_SUBGROUP_NAME c) ''prod'' (CD_HELM_NAMESPACE c) w1) = Inr sp"
    using generate_vault_secret_returns [OF v1] by blast
  consider (dev) "branch \<in> set [''dev'', ''devdmz'']"
    | (prod) "branch \<in> set [''prod'', ''proddmz'', ''procdnz'']"
    | (other) "branch \<notin> set [''dev'', ''devdmz'']" "branch \<notin> set [''prod'', ''proddmz'', ''procdnz'']"
    by blast
  then show ?thesis
  proof cases
    case dev
    then have np: "branch \<notin> set [''prod'', ''proddmz'', ''procdnz'']"
      by auto
    show ?thesis
      unfolding write_branch_secret_eq bind_fst_Inr [of "generate_consul_secret L (CI_SUBGROUP_NAME c) (CD_HELM_NAMESPACE c)", OF s] w1_def [symmetric]
      using dev np sd
      by (simp add: bind_assoc bind_ret_left bind_returns)
  next
    case prod
    then have nd: "branch \<notin> set [''dev'', ''devdmz'']"
      by auto
    show ?thesis
      unfolding write_branch_secret_eq bind_fst_Inr [of "generate_consul_secret L (CI_SUBGROUP_NAME c) (CD_HELM_NAMESPACE c)", OF s] w1_def [symmetric]
      using prod nd sp
      by (simp add: bind_assoc bind_ret_left bind_returns)
  next
    case other
    show ?thesis
      unfolding write_branch_secret_eq bind_fst_Inr [of "generate_consul_secret L (CI_SUBGROUP_NAME c) (CD_HELM_NAMESPACE c)", OF s] w1_def [symmetric]
      using other by (simp add: bind_ret_left raise_def)
  qed
qed

lemma create_global_variable_raises:
  assumes ok: "gl_fault (gitlab w) = None"
    and path: "map_of (gl_paths (gitlab w))
        (CI_MAIN_GROUP_DEVOPS @ ''/'' @ devops_project_provisioning) = Some pid"
    and branches: "envBranches c \<noteq> []"
  shows "create_global_variable L c w =
    (Inl (NameError ''converted_secret_key''),
     w\<lparr>gitlab := (gitlab w)\<lparr>gl_requests := gl_requests (gitlab w) @
          [ProjectsGet (CI_MAIN_GROUP_DEVOPS @ ''/'' @ devops_project_provisioning),
           VariablesList pid]\<rparr>\<rparr>)"
proof -
  obtain b bs where bs: "envBranches c = b # bs"
    using branches by (cases "envBranches c") auto
  show ?thesis
    using ok path
    by (simp add: create_global_variable_def Let_def bs
          load_converted_secret_key
          projects_get_def variables_list_def gitlab_request_ok bind_def raise_def)
qed


lemma keeps_gitlab_request: "keeps vault (gitlab_request rq f)"
  by (rule keepsI) (simp add: gitlab_request_def Let_def split: option.splits prod.splits)

lemma bind_raise: "bind (raise e) f = raise e"
  by (rule ext) (simp add: bind_def raise_def)

lemma create_global_variable_keeps_vault: "keeps vault (create_global_variable L c)"
proof (cases "envBranches c")
  case Nil
  then show ?thesis
    unfolding create_global_variable_def Let_def projects_get_def variables_list_def
    by (intro keeps_bind keeps_gitlab_request) (simp add: keeps_ret)
next
  case (Cons b bs)
  then show ?thesis
    unfolding create_global_variable_def Let_def projects_get_def variables_list_def
    by (intro keeps_bind keeps_gitlab_request)
       (simp add: load_converted_secret_key bind_raise keeps_raise)
qed

text \<open>
  C2. In \<open>create_global_variable\<close> the test of the loop body reads the name
  \<open>converted_secret_key\<close> and the call that writes the merged secret reads the name
  \<open>secret_value\<close>; neither is ever assigned. With a reachable GitLab project and at
  least one environment branch the method ends with a \<open>NameError\<close> for
  \<open>converted_secret_key\<close> after listing the variables, and in every case it leaves
  Vault as it was. The body that computes and writes the secrets never completes normally for
  any branch: whatever it computed before, the key-value store of Vault is left as it was, and
  with Consul and Vault healthy it ends with a \<open>NameError\<close> for \<open>secret_value\<close>.
\<close>

theorem create_global_variable_undefined_names:
  "(gl_fault (gitlab w) = None \<and>
    map_of (gl_paths (gitlab w))
      (CI_MAIN_GROUP_DEVOPS @ ''/'' @ devops_project_provisioning) = Some pid \<and>
    envBranches c \<noteq> [] \<longrightarrow>
      create_global_variable L c w =
        (Inl (NameError ''converted_secret_key''),
         w\<lparr>gitlab := (gitlab w)\<lparr>gl_requests := gl_requests (gitlab w) @
              [ProjectsGet (CI_MAIN_GROUP_DEVOPS @ ''/'' @ devops_project_provisioning),
               VariablesList pid]\<rparr>\<rparr>)) \<and>
   vault (snd (create_global_variable L c w)) = vault w \<and>
   (\<exists>e. fst (write_branch_secret L c (global_variable_frame branch) branch w) = Inl e) \<and>
   kv_v1 (vault (snd (write_branch_secret L c (global_variable_frame branch) branch w)))
     = kv_v1 (vault w) \<and>
   (consul_fault (consul w) = None \<and> vault_fault (vault w) = None \<longrightarrow>
      fst (write_branch_secret L c (global_variable_frame branch) branch w)
        = Inl (NameError ''secret_value''))"
proof (intro conjI impI)
  assume "gl_fault (gitlab w) = None \<and>
    map_of (gl_paths (gitlab w))
      (CI_MAIN_GROUP_DEVOPS @ ''/'' @ devops_project_provisioning) = Some pid \<and>
    envBranches c \<noteq> []"
  then show "create_global_variable L c w =
        (Inl (NameError ''converted_secret_key''),
         w\<lparr>gitlab := (gitlab w)\<lparr>gl_requests := gl_requests (gitlab w) @
              [ProjectsGet (CI_MAIN_GROUP_DEVOPS @ ''/'' @ devops_project_provisioning),
               VariablesList pid]\<rparr>\<rparr>)"
    by (intro create_global_variable_raises) simp_all
next
  show "vault (snd (create_global_variable L c w)) = vault w"
    by (rule keepsD [OF create_global_variable_keeps_vault])
next
  show "\<exists>e. fst (write_branch_secret L c (global_variable_frame branch) branch w) = Inl e"
    by (rule write_branch_secret_fails)
next
  show "kv_v1 (vault (snd (write_branch_secret L c (global_variable_frame branch) branch w)))
     = kv_v1 (vault w)"
    by (rule keepsD [OF write_branch_secret_keeps_kv])
next
  assume "consul_fault (consul w) = None \<and> vault_fault (vault w) = None"
  then show "fst (write_branch_secret L c (global_variable_frame branch) branch w)
        = Inl (NameError ''secret_value'')"
    by (intro write_branch_secret_healthy) simp_all
qed

theorem create_global_variable_undefined_names_witness:
  "create_global_variable serial0 conf0 world2 =
     (Inl (NameError ''converted_secret_key''),
      world2\<lparr>gitlab := (gitlab world2)\<lparr>gl_requests :=
         [ProjectsGet ''devops/devops-project-provisioning'', VariablesList 3502]\<rparr>\<rparr>) \<and>
   fst (write_branch_secret serial0 conf0 (global_variable_frame ''dev'') ''dev'' world2)
     = Inl (NameError ''secret_value'') \<and>
   kv_v1 (vault (snd (write_branch_secret serial0 conf0 (global_variable_frame ''dev'') ''dev''
     world2))) = kv_v1 (vault world2)"
proof -
  have g: "gl_fault (gitlab world2) = None"
    by (simp add: world2_def world0_def gitlab0_def)
  have p: "map_of (gl_paths (gitlab world2))
      (CI_MAIN_GROUP_DEVOPS @ ''/'' @ devops_project_provisioning) = Some 3502"
    by (simp add: world2_def world0_def CI_MAIN_GROUP_DEVOPS_def devops_project_provisioning_def)
  have b: "envBranches conf0 \<noteq> []"
    by (simp add: conf0_def)
  have f: "consul_fault (consul world2) = None" "vault_fault (vault world2) = None"
    by (simp_all add: world2_def world0_def consul0_def vault0_def)
  have r: "gl_requests (gitlab world2) = []"
    by (simp add: world2_def world0_def gitlab0_def)
  have n: "CI_MAIN_GROUP_DEVOPS @ ''/'' @ devops_project_provisioning
      = ''devops/devops-project-provisioning''"
    by (simp add: CI_MAIN_GROUP_DEVOPS_def devops_project_provisioning_def)
  show ?thesis
    using create_global_variable_undefined_names
      [where w = world2 and pid = 3502 and c = conf0 and L = serial0 and branch = "''dev''"]
      g p b f
    by (simp only: r n append_Nil simp_thms)
qed

end
